theory Spec2Isabelle
  imports Main "HOL-Library.Sublist"
begin

section \<open>JavaScript strings and arrays\<close>

text \<open>
  A specifier is a \<^typ>\<open>string\<close>; a \<^typ>\<open>char\<close> stands for one UTF-16 code unit
  below 256, which covers every character the patterns of \<^verbatim>\<open>registry.ts\<close> name.
  A value that may be \<^verbatim>\<open>undefined\<close> is a \<^typ>\<open>string option\<close>.
\<close>

text \<open>\<^verbatim>\<open>s.split(sep)\<close> for a one-character separator: never the empty array.\<close>

fun split_on :: "char \<Rightarrow> string \<Rightarrow> string list" where
  "split_on sep [] = [[]]"
| "split_on sep (x # xs) =
     (if x = sep then [] # split_on sep xs
      else (case split_on sep xs of [] \<Rightarrow> [[x]] | y # ys \<Rightarrow> (x # y) # ys))"

text \<open>\<^verbatim>\<open>parts.join(sep)\<close>.\<close>

fun join :: "char \<Rightarrow> string list \<Rightarrow> string" where
  "join sep [] = []"
| "join sep [p] = p"
| "join sep (p # q # ps) = p @ sep # join sep (q # ps)"

text \<open>\<^verbatim>\<open>xs[i]\<close>: \<^verbatim>\<open>undefined\<close> out of range.\<close>

definition at_index :: "'a list \<Rightarrow> nat \<Rightarrow> 'a option" where
  "at_index xs i = (if i < length xs then Some (xs ! i) else None)"

text \<open>
  \<^verbatim>\<open>parts[i] = v\<close> on an array of strings that is joined afterwards: an assignment past
  the end extends the array, and \<^verbatim>\<open>join\<close> renders the holes it leaves as empty strings.
\<close>

definition set_index :: "string list \<Rightarrow> nat \<Rightarrow> string \<Rightarrow> string list" where
  "set_index xs i v =
     (if i < length xs then xs[i := v] else xs @ replicate (i - length xs) [] @ [v])"

text \<open>\<^verbatim>\<open>xs[xs.length - 1]\<close>: \<^verbatim>\<open>undefined\<close> on the empty array.\<close>

definition last_entry :: "'a list \<Rightarrow> 'a option" where
  "last_entry xs = (if xs = [] then None else Some (last xs))"

text \<open>A value inside a template literal: \<^verbatim>\<open>undefined\<close> prints as its name.\<close>

fun tpl :: "string option \<Rightarrow> string" where
  "tpl None = ''undefined''"
| "tpl (Some s) = s"

text \<open>Truthiness of a string or \<^verbatim>\<open>undefined\<close>.\<close>

fun truthy :: "string option \<Rightarrow> bool" where
  "truthy None = False"
| "truthy (Some s) = (s \<noteq> [])"

fun digit_char :: "nat \<Rightarrow> char" where
  "digit_char n = (''0123456789'' ! (n mod 10))"

fun show_nat :: "nat \<Rightarrow> string" where
  "show_nat n = (if n < 10 then [digit_char n] else show_nat (n div 10) @ [digit_char n])"

declare show_nat.simps [simp del]

section \<open>Regular expressions\<close>

text \<open>
  The patterns of the source are kept as terms of \<open>re\<close>, one constructor per construct the
  source uses, and run by a backtracking matcher that lists the ways a pattern can match at a
  position in the order ECMAScript tries them: the head of the list is the match the
  engine reports. The source puts \<^verbatim>\<open>*\<close>, \<^verbatim>\<open>*?\<close>, \<^verbatim>\<open>+\<close> and \<^verbatim>\<open>+?\<close> on character classes
  only, so these take a class.
\<close>

datatype cls = Dot | Digit | OneOf "char list" | NoneOf "char list"

datatype re =
    Lit string
  | One cls
  | Star cls
  | LazyStar cls
  | Seq re re
  | Alt re re
  | Grp nat re
  | NotAhead re
  | Bol
  | Eol

definition line_terminator :: "char \<Rightarrow> bool" where
  "line_terminator c = (c = CHR 0x0A \<or> c = CHR 0x0D)"

definition is_digit :: "char \<Rightarrow> bool" where
  "is_digit c = (c \<in> set ''0123456789'')"

fun accepts :: "cls \<Rightarrow> char \<Rightarrow> bool" where
  "accepts Dot x = (\<not> line_terminator x)"
| "accepts Digit x = is_digit x"
| "accepts (OneOf cs) x = (x \<in> set cs)"
| "accepts (NoneOf cs) x = (x \<notin> set cs)"

text \<open>
  A state of the matcher: whether it stands at the start of the input, the input left,
  the text this attempt has consumed (reversed), and the groups captured (latest first).
\<close>

datatype mstate =
  MState (at_start: bool) (rest: string) (seen: string) (caps: "(nat \<times> string) list")

text \<open>\<open>strip cs s\<close> is \<open>s\<close> without its prefix \<open>cs\<close>, when it has that prefix.\<close>

fun strip :: "string \<Rightarrow> string \<Rightarrow> string option" where
  "strip [] s = Some s"
| "strip (c # cs) [] = None"
| "strip (c # cs) (x # xs) = (if c = x then strip cs xs else None)"

text \<open>The greedy star tries the longest run first, the lazy star the empty run.\<close>

fun greedy :: "cls \<Rightarrow> bool \<Rightarrow> string \<Rightarrow> string \<Rightarrow> (nat \<times> string) list \<Rightarrow> mstate list" where
  "greedy k b [] t c = [MState b [] t c]"
| "greedy k b (x # xs) t c =
     (if accepts k x then greedy k False xs (x # t) c @ [MState b (x # xs) t c]
      else [MState b (x # xs) t c])"

fun lazy :: "cls \<Rightarrow> bool \<Rightarrow> string \<Rightarrow> string \<Rightarrow> (nat \<times> string) list \<Rightarrow> mstate list" where
  "lazy k b [] t c = [MState b [] t c]"
| "lazy k b (x # xs) t c =
     MState b (x # xs) t c # (if accepts k x then lazy k False xs (x # t) c else [])"

text \<open>What a group captured: the text consumed between its two ends.\<close>

definition captured :: "string \<Rightarrow> string \<Rightarrow> string" where
  "captured t t' = rev (take (length t' - length t) t')"

fun rmatch :: "re \<Rightarrow> mstate \<Rightarrow> mstate list" where
  "rmatch (Lit cs) (MState b s t c) =
     (case strip cs s of
        None \<Rightarrow> []
      | Some s' \<Rightarrow> [MState (b \<and> cs = []) s' (rev cs @ t) c])"
| "rmatch (One k) (MState b s t c) =
     (case s of
        [] \<Rightarrow> []
      | x # xs \<Rightarrow> if accepts k x then [MState False xs (x # t) c] else [])"
| "rmatch (Star k) (MState b s t c) = greedy k b s t c"
| "rmatch (LazyStar k) (MState b s t c) = lazy k b s t c"
| "rmatch (Seq p q) (MState b s t c) = concat (map (rmatch q) (rmatch p (MState b s t c)))"
| "rmatch (Alt p q) (MState b s t c) = rmatch p (MState b s t c) @ rmatch q (MState b s t c)"
| "rmatch (Grp n p) (MState b s t c) =
     map (\<lambda>st'. MState (at_start st') (rest st') (seen st')
                  ((n, captured t (seen st')) # caps st'))
         (rmatch p (MState b s t c))"
| "rmatch (NotAhead p) (MState b s t c) =
     (if rmatch p (MState b s t c) = [] then [MState b s t c] else [])"
| "rmatch Bol (MState b s t c) = (if b then [MState b s t c] else [])"
| "rmatch Eol (MState b s t c) = (if s = [] then [MState b s t c] else [])"

text \<open>The derived constructs: \<^verbatim>\<open>a?\<close>, \<^verbatim>\<open>k+\<close>, \<^verbatim>\<open>k+?\<close> and concatenation.\<close>

definition Eps :: re where
  "Eps = Lit []"

definition Opt :: "re \<Rightarrow> re" where
  "Opt a = Alt a Eps"

definition Plus :: "cls \<Rightarrow> re" where
  "Plus k = Seq (One k) (Star k)"

definition LazyPlus :: "cls \<Rightarrow> re" where
  "LazyPlus k = Seq (One k) (LazyStar k)"

fun cat :: "re list \<Rightarrow> re" where
  "cat [] = Eps"
| "cat [r] = r"
| "cat (r # rs) = Seq r (cat rs)"

text \<open>A match: the input before it, its text, the input after it, and its groups.\<close>

record rmatched =
  m_before :: string
  m_text :: string
  m_after :: string
  m_groups :: "(nat \<times> string) list"

definition found :: "string \<Rightarrow> mstate \<Rightarrow> rmatched" where
  "found front st =
     \<lparr>m_before = rev front, m_text = rev (seen st), m_after = rest st, m_groups = caps st\<rparr>"

text \<open>
  \<open>exec_from r front s\<close> tries the start positions in turn: \<open>s\<close> is the input from the
  position on and \<open>front\<close> the input in front of it, reversed.
\<close>

fun exec_from :: "re \<Rightarrow> string \<Rightarrow> string \<Rightarrow> rmatched option" where
  "exec_from r front [] =
     (case rmatch r (MState (front = []) [] [] []) of
        [] \<Rightarrow> None
      | st # _ \<Rightarrow> Some (found front st))"
| "exec_from r front (x # xs) =
     (case rmatch r (MState (front = []) (x # xs) [] []) of
        [] \<Rightarrow> exec_from r (x # front) xs
      | st # _ \<Rightarrow> Some (found front st))"

text \<open>
  \<^verbatim>\<open>re.exec(s)\<close>, \<^verbatim>\<open>re.test(s)\<close> and \<^verbatim>\<open>s.match(re)\<close> for a pattern without the \<^verbatim>\<open>g\<close>
  flag.
\<close>

definition re_exec :: "re \<Rightarrow> string \<Rightarrow> rmatched option" where
  "re_exec r s = exec_from r [] s"

definition re_test :: "re \<Rightarrow> string \<Rightarrow> bool" where
  "re_test r s = (re_exec r s \<noteq> None)"

definition str_match :: "string \<Rightarrow> re \<Rightarrow> rmatched option" where
  "str_match s r = re_exec r s"

text \<open>\<^verbatim>\<open>m[n]\<close> for \<open>n \<ge> 1\<close>: the group, \<^verbatim>\<open>undefined\<close> when it took no part in the match.\<close>

definition grp :: "rmatched \<Rightarrow> nat \<Rightarrow> string option" where
  "grp m n = map_of (m_groups m) n"

text \<open>
  \<^verbatim>\<open>[...s.matchAll(re)]\<close> for a pattern with the \<^verbatim>\<open>g\<close> flag. The start positions are
  tried in increasing order; \<open>skip\<close> counts the positions still in front of
  \<^verbatim>\<open>lastIndex\<close>, which after a match is its end, one further when the match is empty.
\<close>

fun match_all_from :: "re \<Rightarrow> string \<Rightarrow> nat \<Rightarrow> string \<Rightarrow> rmatched list" where
  "match_all_from r front skip [] =
     (if 0 < skip then []
      else (case rmatch r (MState (front = []) [] [] []) of
              [] \<Rightarrow> []
            | st # _ \<Rightarrow> [found front st]))"
| "match_all_from r front skip (x # xs) =
     (if 0 < skip then match_all_from r (x # front) (skip - 1) xs
      else (case rmatch r (MState (front = []) (x # xs) [] []) of
              [] \<Rightarrow> match_all_from r (x # front) 0 xs
            | st # _ \<Rightarrow>
                found front st # match_all_from r (x # front) (length (seen st) - 1) xs))"

definition match_all :: "string \<Rightarrow> re \<Rightarrow> rmatched list" where
  "match_all s r = match_all_from r [] 0 s"

text \<open>The number of capture groups of a pattern.\<close>

fun group_count :: "re \<Rightarrow> nat" where
  "group_count (Seq a b) = group_count a + group_count b"
| "group_count (Alt a b) = group_count a + group_count b"
| "group_count (Grp n a) = Suc (group_count a)"
| "group_count (NotAhead a) = group_count a"
| "group_count _ = 0"

definition digit_val :: "char \<Rightarrow> nat" where
  "digit_val c = of_char c - 48"

text \<open>
  The replacement text of \<^verbatim>\<open>String.prototype.replace\<close> (GetSubstitution, without named
  groups): \<^verbatim>\<open>$$\<close>, \<^verbatim>\<open>$&\<close>, the text before and after the match, \<^verbatim>\<open>$n\<close> and \<^verbatim>\<open>$nn\<close>;
  a two-digit index beyond the groups of the pattern is read as one digit and a literal
  digit, and a reference no group answers stays as it is written.
\<close>

fun substitution ::
  "nat \<Rightarrow> string \<Rightarrow> string \<Rightarrow> string \<Rightarrow> (nat \<Rightarrow> string option) \<Rightarrow> string \<Rightarrow> string" where
  "substitution n whole pre post g [] = []"
| "substitution n whole pre post g [x] = [x]"
| "substitution n whole pre post g (x # y # t) =
     (if x \<noteq> CHR ''$'' then x # substitution n whole pre post g (y # t)
      else if y = CHR ''$'' then CHR ''$'' # substitution n whole pre post g t
      else if y = CHR ''&'' then whole @ substitution n whole pre post g t
      else if y = CHR 0x60 then pre @ substitution n whole pre post g t
      else if y = CHR 0x27 then post @ substitution n whole pre post g t
      else if is_digit y then
        (case t of
           z # t' \<Rightarrow>
             if is_digit z \<and> 1 \<le> 10 * digit_val y + digit_val z
                \<and> 10 * digit_val y + digit_val z \<le> n
             then (case g (10 * digit_val y + digit_val z) of None \<Rightarrow> [] | Some v \<Rightarrow> v)
                  @ substitution n whole pre post g t'
             else if 1 \<le> digit_val y \<and> digit_val y \<le> n
             then (case g (digit_val y) of None \<Rightarrow> [] | Some v \<Rightarrow> v)
                  @ substitution n whole pre post g t
             else x # y # substitution n whole pre post g t
         | [] \<Rightarrow>
             if 1 \<le> digit_val y \<and> digit_val y \<le> n
             then (case g (digit_val y) of None \<Rightarrow> [] | Some v \<Rightarrow> v)
             else [x, y])
      else x # substitution n whole pre post g (y # t))"

text \<open>\<^verbatim>\<open>s.replace(re, template)\<close> for a pattern without the \<^verbatim>\<open>g\<close> flag.\<close>

definition str_replace :: "string \<Rightarrow> re \<Rightarrow> string \<Rightarrow> string" where
  "str_replace s r template =
     (case re_exec r s of
        None \<Rightarrow> s
      | Some m \<Rightarrow>
          m_before m
          @ substitution (group_count r) (m_text m) (m_before m) (m_after m) (grp m) template
          @ m_after m)"

section \<open>Errors and registry URLs\<close>

text \<open>
  What a call can throw: \<^verbatim>\<open>Error(message)\<close>, a \<^verbatim>\<open>TypeError\<close> of the runtime (a property
  read or a destructuring of \<^verbatim>\<open>null\<close> or \<^verbatim>\<open>undefined\<close>), or the rejection of a fetch.
\<close>

datatype error = Error string | TypeError | FetchFailed string

text \<open>The classes that implement \<^verbatim>\<open>RegistryUrl\<close>; an instance is its class and its url.\<close>

datatype registry =
    Jsr | DenoLand | UnpkgScope | Unpkg | Denopkg | PaxDenoDev | Jspm | PikaScope | Pika
  | SkypackScope | Skypack | EsmShScope | EsmSh | GithubRaw | GitlabRaw | JsDelivr
  | NestLand | Npm

record registry_url =
  kind :: registry
  url :: string

definition new :: "registry \<Rightarrow> string \<Rightarrow> registry_url" where
  "new R u = \<lparr>kind = R, url = u\<rparr>"

definition quotes :: "char list" where
  "quotes = [CHR 0x27, CHR 0x22]"

text \<open>\<^verbatim>\<open>[^\/\"\']\<close> and \<^verbatim>\<open>[^\'\"]\<close>.\<close>

definition seg :: cls where
  "seg = NoneOf (CHR ''/'' # quotes)"

definition unquoted :: cls where
  "unquoted = NoneOf quotes"

text \<open>\<^verbatim>\<open>/@(.*?)(\/|$)/\<close>, \<^verbatim>\<open>/\@([^\/]+)[\/$]?/\<close> and \<^verbatim>\<open>/([^\/\"\']*?)\@[^\'\"]*/\<close>.\<close>

definition defaultAt_re :: re where
  "defaultAt_re = cat [Lit ''@'', Grp 1 (LazyStar Dot), Grp 2 (Alt (Lit ''/'') Eol)]"

definition defaultVersion_re :: re where
  "defaultVersion_re = cat [Lit ''@'', Grp 1 (Plus (NoneOf ''/'')), Opt (One (OneOf ''/$''))]"

definition defaultName_re :: re where
  "defaultName_re = cat [Grp 1 (LazyStar seg), Lit ''@'', Star unquoted]"

definition defaultAt :: "string \<Rightarrow> string \<Rightarrow> string" where
  "defaultAt u version = str_replace u defaultAt_re (''@'' @ version @ ''/'')"

definition defaultVersion :: "string \<Rightarrow> error + string option" where
  "defaultVersion u =
     (case str_match u defaultVersion_re of
        None \<Rightarrow> Inl (Error (''Unable to find version in '' @ u))
      | Some v \<Rightarrow> Inr (grp v 1))"

definition defaultName :: "string \<Rightarrow> error + string option" where
  "defaultName u =
     (case str_match u defaultName_re of
        None \<Rightarrow> Inl (Error (''Package name not found in '' @ u))
      | Some n \<Rightarrow> Inr (grp n 1))"

record package_info =
  parts :: "string list"
  scope :: string
  packageName :: string
  version_of :: string

text \<open>
  \<^verbatim>\<open>defaultInfo\<close>: \<^verbatim>\<open>parts[4].split("@")\<close> is evaluated first, so a url of fewer than five
  segments is a \<^verbatim>\<open>TypeError\<close>; then \<^verbatim>\<open>parts[3]\<close> and \<^verbatim>\<open>packageName\<close> are defined, and
  only the check of \<^verbatim>\<open>version\<close> can fail.
\<close>

definition defaultInfo :: "string \<Rightarrow> error + package_info" where
  "defaultInfo u =
     (let ps = split_on CHR ''/'' u in
      case at_index ps 4 of
        None \<Rightarrow> Inl TypeError
      | Some p4 \<Rightarrow>
          (let pv = split_on CHR ''@'' p4 in
           case at_index ps 3 of
             None \<Rightarrow> Inl (Error (''Package scope not found in '' @ u))
           | Some p3 \<Rightarrow>
               (case at_index pv 0 of
                  None \<Rightarrow> Inl (Error (''Package name not found in '' @ u))
                | Some pn \<Rightarrow>
                    (case at_index pv 1 of
                       None \<Rightarrow> Inl (Error (''Unable to find version in '' @ u))
                     | Some v \<Rightarrow>
                         Inr \<lparr>parts = ps, scope = p3, packageName = pn, version_of = v\<rparr>))))"

definition defaultScopeAt :: "string \<Rightarrow> string \<Rightarrow> error + string" where
  "defaultScopeAt u version =
     (case defaultInfo u of
        Inl e \<Rightarrow> Inl e
      | Inr info \<Rightarrow>
          Inr (join CHR ''/'' (set_index (parts info) 4 (packageName info @ ''@'' @ version))))"

section \<open>The registry classes\<close>

subsection \<open>Classification patterns\<close>

text \<open>
  The field \<^verbatim>\<open>regexp\<close> of each class, written as in the source: a dot the source leaves
  unescaped is \<open>Dot\<close>, an escaped one a literal.
\<close>

definition https :: re where
  "https = cat [Lit ''http'', Opt (Lit ''s''), Lit ''://'']"

text \<open>\<^verbatim>\<open>npm:(\@[^/]+\/[^@/]+|[^@/]+)(?:\@([^\/\"\']+))?[^\'\"]\<close> after the scheme.\<close>

definition scheme_regexp :: "string \<Rightarrow> re" where
  "scheme_regexp scheme =
     cat [Lit scheme,
          Grp 1 (Alt (cat [Lit ''@'', Plus (NoneOf ''/''), Lit ''/'', Plus (NoneOf ''@/'')])
                     (Plus (NoneOf ''@/''))),
          Opt (cat [Lit ''@'', Grp 2 (Plus seg)]),
          One unquoted]"

text \<open>\<^verbatim>\<open>(\/\_)?\/@[^\/\"\']*?\/[^\/\"\']*?\@[^\'\"]*\<close> and its unscoped form, after the host.\<close>

definition scoped_path :: "re list" where
  "scoped_path = [Lit ''/@'', LazyStar seg, Lit ''/'', LazyStar seg, Lit ''@'', Star unquoted]"

definition unscoped_path :: "re list" where
  "unscoped_path = [Lit ''/'', LazyStar seg, Lit ''@'', Star unquoted]"

definition not_master :: re where
  "not_master = NotAhead (Lit ''master'')"

fun regexp :: "registry \<Rightarrow> re" where
  "regexp Jsr = scheme_regexp ''jsr:''"
| "regexp DenoLand =
     cat [https, Lit ''deno'', One Dot, Lit ''land/'',
          Alt (cat [Lit ''std@'', Star unquoted])
              (cat [Lit ''x/'', LazyStar seg, Lit ''@'', Star unquoted])]"
| "regexp UnpkgScope = cat ([https, Lit ''unpkg.com''] @ scoped_path)"
| "regexp Unpkg = cat ([https, Lit ''unpkg'', One Dot, Lit ''com''] @ unscoped_path)"
| "regexp Denopkg =
     cat [https, Lit ''denopkg'', One Dot, Lit ''com/'', LazyStar seg, Lit ''/'', LazyStar seg,
          Lit ''@'', Star unquoted]"
| "regexp PaxDenoDev =
     cat [https, Lit ''pax'', One Dot, Lit ''deno'', One Dot, Lit ''dev/'', LazyStar seg, Lit ''/'',
          LazyStar seg, Lit ''@'', Star unquoted]"
| "regexp Jspm = cat ([https, Lit ''dev'', One Dot, Lit ''jspm'', One Dot, Lit ''io''] @ unscoped_path)"
| "regexp PikaScope = cat ([https, Lit ''cdn.pika.dev'', Opt (Grp 1 (Lit ''/_''))] @ scoped_path)"
| "regexp Pika =
     cat ([https, Lit ''cdn'', One Dot, Lit ''pika'', One Dot, Lit ''dev'', Opt (Grp 1 (Lit ''/_''))]
          @ unscoped_path)"
| "regexp SkypackScope =
     cat ([https, Lit ''cdn.skypack.dev'', Opt (Grp 1 (Lit ''/_''))] @ scoped_path)"
| "regexp Skypack =
     cat ([https, Lit ''cdn'', One Dot, Lit ''skypack'', One Dot, Lit ''dev'', Opt (Grp 1 (Lit ''/_''))]
          @ unscoped_path)"
| "regexp EsmShScope = cat ([https, Lit ''esm.sh''] @ scoped_path)"
| "regexp EsmSh = cat ([https, Lit ''esm'', One Dot, Lit ''sh''] @ unscoped_path)"
| "regexp GithubRaw =
     cat [https, Lit ''raw.githubusercontent.com/'', Plus seg, Lit ''/'', Plus seg, Lit ''/'',
          not_master, Plus seg, Lit ''/'', Star unquoted]"
| "regexp GitlabRaw =
     cat [https, Lit ''gitlab.com/'', Plus seg, Lit ''/'', Plus seg, Lit ''/-/raw/'',
          not_master, Plus seg, Lit ''/'', Star unquoted]"
| "regexp JsDelivr =
     cat [https, Lit ''cdn.jsdelivr.net/gh/'', Plus seg, Lit ''/'', Plus seg, Lit ''@'',
          not_master, Plus seg, Lit ''/'', Star unquoted]"
| "regexp NestLand =
     cat [https, Lit ''x.nest.land/'', Plus seg, Lit ''@'', not_master, Plus seg, Lit ''/'',
          Star unquoted]"
| "regexp Npm = scheme_regexp ''npm:''"

subsection \<open>Parsing patterns of \<^verbatim>\<open>Jsr\<close>, \<^verbatim>\<open>Npm\<close> and \<^verbatim>\<open>DenoLand\<close>\<close>

text \<open>\<^verbatim>\<open>/^jsr:(\/?\@[^/]+\/[^@/]+|\/?[^@/]+)(?:\@([^/]+))?(.*)/\<close>\<close>

definition Jsr_parseRegex :: re where
  "Jsr_parseRegex =
     cat [Bol, Lit ''jsr:'',
          Grp 1 (Alt (cat [Opt (Lit ''/''), Lit ''@'', Plus (NoneOf ''/''), Lit ''/'',
                           Plus (NoneOf ''@/'')])
                     (cat [Opt (Lit ''/''), Plus (NoneOf ''@/'')])),
          Opt (cat [Lit ''@'', Grp 2 (Plus (NoneOf ''/''))]),
          Grp 3 (Star Dot)]"

text \<open>\<^verbatim>\<open>/^npm:(\@[^/]+\/[^@/]+|[^@/]+)(?:\@([^/]+))?(.*)/\<close>\<close>

definition Npm_parseRegex :: re where
  "Npm_parseRegex =
     cat [Bol, Lit ''npm:'',
          Grp 1 (Alt (cat [Lit ''@'', Plus (NoneOf ''/''), Lit ''/'', Plus (NoneOf ''@/'')])
                     (Plus (NoneOf ''@/''))),
          Opt (cat [Lit ''@'', Grp 2 (Plus (NoneOf ''/''))]),
          Grp 3 (Star Dot)]"

text \<open>\<^verbatim>\<open>/deno\.land\/(?:(std)|x\/([^/@]*))/\<close>\<close>

definition DenoLand_name_re :: re where
  "DenoLand_name_re =
     cat [Lit ''deno.land/'',
          Alt (Grp 1 (Lit ''std'')) (cat [Lit ''x/'', Grp 2 (Star (NoneOf ''/@''))])]"

subsection \<open>\<^verbatim>\<open>version()\<close>\<close>

text \<open>
  The result is the string returned, \<open>None\<close> when the method returns \<^verbatim>\<open>undefined\<close>, or
  the error thrown. In \<^verbatim>\<open>Jsr\<close> and \<^verbatim>\<open>Npm\<close> the match is destructured unchecked
  (\<^verbatim>\<open>match(...)!\<close>), a \<^verbatim>\<open>TypeError\<close> when there is none; the guard
  \<^verbatim>\<open>version === null\<close> never holds, since a group that took no part in the match is
  \<^verbatim>\<open>undefined\<close>; \<^verbatim>\<open>Jsr\<close> then calls \<^verbatim>\<open>startsWith\<close> on it.
\<close>

definition Jsr_version :: "string \<Rightarrow> error + string option" where
  "Jsr_version u =
     (case str_match u Jsr_parseRegex of
        None \<Rightarrow> Inl TypeError
      | Some m \<Rightarrow>
          (case grp m 2 of
             None \<Rightarrow> Inl TypeError
           | Some v \<Rightarrow> Inr (Some (if prefix ''^'' v then drop 1 v else v))))"

definition Npm_version :: "string \<Rightarrow> error + string option" where
  "Npm_version u =
     (case str_match u Npm_parseRegex of
        None \<Rightarrow> Inl TypeError
      | Some m \<Rightarrow> Inr (grp m 2))"

definition scoped_version :: "string \<Rightarrow> error + string option" where
  "scoped_version u =
     (case defaultInfo u of Inl e \<Rightarrow> Inl e | Inr info \<Rightarrow> Inr (Some (version_of info)))"

definition segment_version :: "nat \<Rightarrow> string \<Rightarrow> error + string option" where
  "segment_version n u =
     (case at_index (split_on CHR ''/'' u) n of
        None \<Rightarrow> Inl (Error (''Unable to find version in '' @ u))
      | Some v \<Rightarrow> Inr (Some v))"

record jsdelivr_parts =
  jd_parts :: "string list"
  jd_repo :: string
  jd_user :: "string option"
  jd_version :: "string option"

definition JsDelivr_parts :: "string \<Rightarrow> error + jsdelivr_parts" where
  "JsDelivr_parts u =
     (let ps = split_on CHR ''/'' u in
      case at_index ps 5 of
        None \<Rightarrow> Inl TypeError
      | Some p5 \<Rightarrow>
          (let rv = split_on CHR ''@'' p5 in
           Inr \<lparr>jd_parts = ps, jd_repo = hd rv, jd_user = at_index ps 4,
                jd_version = at_index rv 1\<rparr>))"

definition JsDelivr_version :: "string \<Rightarrow> error + string option" where
  "JsDelivr_version u =
     (case JsDelivr_parts u of
        Inl e \<Rightarrow> Inl e
      | Inr p \<Rightarrow>
          (case jd_version p of
             None \<Rightarrow> Inl (Error (''Unable to find version in '' @ u))
           | Some v \<Rightarrow> Inr (Some v)))"

fun version_by :: "registry \<Rightarrow> string \<Rightarrow> error + string option" where
  "version_by Jsr u = Jsr_version u"
| "version_by Npm u = Npm_version u"
| "version_by UnpkgScope u = scoped_version u"
| "version_by PikaScope u = scoped_version u"
| "version_by SkypackScope u = scoped_version u"
| "version_by EsmShScope u = scoped_version u"
| "version_by GithubRaw u = segment_version 5 u"
| "version_by GitlabRaw u = segment_version 7 u"
| "version_by JsDelivr u = JsDelivr_version u"
| "version_by _ u = defaultVersion u"

definition version :: "registry_url \<Rightarrow> error + string option" where
  "version r = version_by (kind r) (url r)"

subsection \<open>\<^verbatim>\<open>at(version)\<close>\<close>

text \<open>
  Each class builds the new url and constructs an instance from it; the receiver is a
  value and stays as it is. \<^verbatim>\<open>JsDelivr.at\<close> and \<^verbatim>\<open>GitlabRaw.at\<close> construct a \<^verbatim>\<open>GithubRaw\<close>.
\<close>

definition scheme_at :: "string \<Rightarrow> re \<Rightarrow> string \<Rightarrow> string \<Rightarrow> error + string" where
  "scheme_at scheme parseRegex u v =
     (case str_match u parseRegex of
        None \<Rightarrow> Inl TypeError
      | Some m \<Rightarrow> Inr (scheme @ tpl (grp m 1) @ ''@'' @ v @ tpl (grp m 3)))"

definition segment_at :: "nat \<Rightarrow> string \<Rightarrow> string \<Rightarrow> string" where
  "segment_at n u v = join CHR ''/'' (set_index (split_on CHR ''/'' u) n v)"

definition JsDelivr_at :: "string \<Rightarrow> string \<Rightarrow> error + string" where
  "JsDelivr_at u v =
     (case JsDelivr_parts u of
        Inl e \<Rightarrow> Inl e
      | Inr p \<Rightarrow> Inr (join CHR ''/'' (set_index (jd_parts p) 5 (jd_repo p @ ''@'' @ v))))"

definition construct :: "registry \<Rightarrow> error + string \<Rightarrow> error + registry_url" where
  "construct R r = (case r of Inl e \<Rightarrow> Inl e | Inr u \<Rightarrow> Inr (new R u))"

fun at_by :: "registry \<Rightarrow> string \<Rightarrow> string \<Rightarrow> error + registry_url" where
  "at_by Jsr u v = construct Jsr (scheme_at ''jsr:'' Jsr_parseRegex u v)"
| "at_by Npm u v = construct Npm (scheme_at ''npm:'' Npm_parseRegex u v)"
| "at_by UnpkgScope u v = construct UnpkgScope (defaultScopeAt u v)"
| "at_by PikaScope u v = construct PikaScope (defaultScopeAt u v)"
| "at_by SkypackScope u v = construct SkypackScope (defaultScopeAt u v)"
| "at_by EsmShScope u v = construct EsmShScope (defaultScopeAt u v)"
| "at_by GithubRaw u v = construct GithubRaw (Inr (segment_at 5 u v))"
| "at_by GitlabRaw u v = construct GithubRaw (Inr (segment_at 7 u v))"
| "at_by JsDelivr u v = construct GithubRaw (JsDelivr_at u v)"
| "at_by R u v = construct R (Inr (defaultAt u v))"

definition at :: "registry_url \<Rightarrow> string \<Rightarrow> error + registry_url" where
  "at r v = at_by (kind r) (url r) v"

section \<open>The lookup dispatcher\<close>

definition REGISTRIES :: "registry list" where
  "REGISTRIES =
     [Jsr, DenoLand, UnpkgScope, Unpkg, Denopkg, PaxDenoDev, Jspm, PikaScope, Pika,
      SkypackScope, Skypack, EsmShScope, EsmSh, GithubRaw, GitlabRaw, JsDelivr, NestLand, Npm]"

fun lookup :: "string \<Rightarrow> registry list \<Rightarrow> registry_url option" where
  "lookup u [] = None"
| "lookup u (R # registries) =
     (if re_test (regexp R) u then Some (new R u) else lookup u registries)"

text \<open>The classes for a scoped path, each with the class for the unscoped path of its host.\<close>

definition scoped_pairs :: "(registry \<times> registry) list" where
  "scoped_pairs =
     [(UnpkgScope, Unpkg), (PikaScope, Pika), (SkypackScope, Skypack), (EsmShScope, EsmSh)]"

section \<open>Fetching the versions\<close>

text \<open>
  The network is a parameter: what \<^verbatim>\<open>await (await fetch(url)).text()\<close> and
  \<^verbatim>\<open>.json()\<close> give for a url, or the error they reject with; a url is answered the same
  way each time it is asked. Of a JSON document the model keeps the one field the callers
  read: \<^verbatim>\<open>versions\<close> (the array of \<^verbatim>\<open>cdn.deno.land\<close>, the keys that \<^verbatim>\<open>Object.keys\<close>
  lists for the object of \<^verbatim>\<open>jsr.io\<close> and \<^verbatim>\<open>registry.npmjs.org\<close>), and
  \<^verbatim>\<open>packageUploadNames\<close> of \<^verbatim>\<open>x.nest.land\<close>; \<open>None\<close> when the field is absent.
\<close>

record network =
  text_of :: "string \<Rightarrow> error + string"
  versions_of :: "string \<Rightarrow> error + string list option"
  uploads_of :: "string \<Rightarrow> error + string list option"

text \<open>
  The state the fetchers share: the six module-level caches, and, to observe the effects,
  the urls fetched so far and the lines written by \<^verbatim>\<open>console.error\<close>.
\<close>

record world =
  GR_CACHE :: "string \<rightharpoonup> string list"
  DL_CACHE :: "string \<rightharpoonup> string list"
  JSR_CACHE :: "string \<rightharpoonup> string list"
  NPM_CACHE :: "string \<rightharpoonup> string list"
  GL_CACHE :: "string \<rightharpoonup> string list"
  NL_CACHE :: "string \<rightharpoonup> string list"
  requests :: "string list"
  console :: "string list"

definition fetched :: "string \<Rightarrow> world \<Rightarrow> world" where
  "fetched u w = w\<lparr>requests := requests w @ [u]\<rparr>"

definition console_error :: "string \<Rightarrow> world \<Rightarrow> world" where
  "console_error line w = w\<lparr>console := console w @ [line]\<rparr>"

text \<open>
  \<^verbatim>\<open>[...text.matchAll(re)].map((x) => x[1])\<close>; group 1 takes part in every match of the
  three patterns below.
\<close>

definition first_group :: "rmatched \<Rightarrow> string" where
  "first_group x = tpl (grp x 1)"

definition first_groups :: "string \<Rightarrow> re \<Rightarrow> string list" where
  "first_groups text r = map first_group (match_all text r)"

subsection \<open>GitHub releases\<close>

text \<open>The cache key \<^verbatim>\<open>`${owner}/${repo}`\<close> of \<^verbatim>\<open>githubReleases\<close> and \<^verbatim>\<open>gitlabReleases\<close>.\<close>

definition owner_repo :: "string option \<Rightarrow> string option \<Rightarrow> string" where
  "owner_repo owner repo = tpl owner @ ''/'' @ tpl repo"

text \<open>
  The pattern of \<^verbatim>\<open>githubDownloadReleases\<close>, written here without its escapes of the
  angle brackets, colons and comma: \<^verbatim>\<open>/<id>tag:github\.com,2008:Repository\/\d+\/(.*?)<\/id>/g\<close>
\<close>

definition github_id_re :: re where
  "github_id_re =
     cat [Lit ''<id>tag:github.com,2008:Repository/'', Plus Digit, Lit ''/'',
          Grp 1 (LazyStar Dot), Lit ''</id>'']"

definition github_url :: "string option \<Rightarrow> string option \<Rightarrow> string option \<Rightarrow> string" where
  "github_url owner repo lastVersion =
     ''https://github.com/'' @ tpl owner @ ''/'' @ tpl repo @ ''/releases.atom''
     @ (if truthy lastVersion then ''?after='' @ tpl lastVersion else [])"

definition githubDownloadReleases ::
  "network \<Rightarrow> string option \<Rightarrow> string option \<Rightarrow> string option \<Rightarrow> world
    \<Rightarrow> (error + string list) \<times> world" where
  "githubDownloadReleases net owner repo lastVersion w =
     (let u = github_url owner repo lastVersion in
      case text_of net u of
        Inl e \<Rightarrow> (Inl e, fetched u w)
      | Inr text \<Rightarrow> (Inr (first_groups text github_id_re), fetched u w))"

text \<open>The \<^verbatim>\<open>while\<close> loop of \<^verbatim>\<open>githubReleases\<close>, entered with \<open>lastVersion = None\<close>, \<open>i = 0\<close>.\<close>

function github_more ::
  "network \<Rightarrow> string option \<Rightarrow> string option \<Rightarrow> string option \<Rightarrow> nat \<Rightarrow> string list \<Rightarrow> world
    \<Rightarrow> (error + string list) \<times> world" where
  "github_more net owner repo lastVersion i versions w =
     (if lastVersion \<noteq> last_entry versions \<and> i < 5 then
        (case githubDownloadReleases net owner repo (last_entry versions) w of
           (Inl e, w') \<Rightarrow> (Inl e, w')
         | (Inr page, w') \<Rightarrow>
             github_more net owner repo (last_entry versions) (Suc i) (versions @ page) w')
      else (Inr versions, w))"
  by pat_completeness auto
termination
  by (relation "measure (\<lambda>(net, owner, repo, lastVersion, i, versions, w). 5 - i)") auto

declare github_more.simps [simp del]

definition githubReleases ::
  "network \<Rightarrow> string option \<Rightarrow> string option \<Rightarrow> world \<Rightarrow> (error + string list) \<times> world" where
  "githubReleases net owner repo w =
     (let cacheKey = owner_repo owner repo in
      case GR_CACHE w cacheKey of
        Some cached \<Rightarrow> (Inr cached, w)
      | None \<Rightarrow>
          (case githubDownloadReleases net owner repo None w of
             (Inl e, w1) \<Rightarrow> (Inl e, w1)
           | (Inr versions, w1) \<Rightarrow>
               (case (if length versions = 10
                      then github_more net owner repo None 0 versions w1
                      else (Inr versions, w1)) of
                  (Inl e, w2) \<Rightarrow> (Inl e, w2)
                | (Inr all_versions, w2) \<Rightarrow>
                    (Inr all_versions,
                     w2\<lparr>GR_CACHE := (GR_CACHE w2)(cacheKey \<mapsto> all_versions)\<rparr>))))"

subsection \<open>GitLab tags\<close>

text \<open>
  The pattern of \<^verbatim>\<open>gitlabDownloadReleases\<close>, without its escapes of the angle brackets
  and the colon: \<^verbatim>\<open>/<id>https:\/\/gitlab.com.+\/-\/tags\/(.+?)<\/id>/g\<close>
\<close>

definition gitlab_id_re :: re where
  "gitlab_id_re =
     cat [Lit ''<id>https://gitlab'', One Dot, Lit ''com'', Plus Dot, Lit ''/-/tags/'',
          Grp 1 (LazyPlus Dot), Lit ''</id>'']"

definition gitlab_url :: "string option \<Rightarrow> string option \<Rightarrow> nat \<Rightarrow> string" where
  "gitlab_url owner repo page =
     ''https://gitlab.com/'' @ tpl owner @ ''/'' @ tpl repo @ ''/-/tags?format=atom&page=''
     @ show_nat page"

definition gitlabDownloadReleases ::
  "network \<Rightarrow> string option \<Rightarrow> string option \<Rightarrow> nat \<Rightarrow> world
    \<Rightarrow> (error + string list) \<times> world" where
  "gitlabDownloadReleases net owner repo page w =
     (let u = gitlab_url owner repo page in
      case text_of net u of
        Inl e \<Rightarrow> (Inl e, fetched u w)
      | Inr text \<Rightarrow> (Inr (first_groups text gitlab_id_re), fetched u w))"

text \<open>The \<^verbatim>\<open>while\<close> loop of \<^verbatim>\<open>gitlabReleases\<close>, entered with \<open>lastVersion = None\<close>, \<open>i = 1\<close>.\<close>

function gitlab_more ::
  "network \<Rightarrow> string option \<Rightarrow> string option \<Rightarrow> string option \<Rightarrow> nat \<Rightarrow> string list \<Rightarrow> world
    \<Rightarrow> (error + string list) \<times> world" where
  "gitlab_more net owner repo lastVersion i versions w =
     (if lastVersion \<noteq> last_entry versions \<and> i \<le> 3 then
        (case gitlabDownloadReleases net owner repo (Suc i) w of
           (Inl e, w') \<Rightarrow> (Inl e, w')
         | (Inr page, w') \<Rightarrow>
             gitlab_more net owner repo (last_entry versions) (Suc i) (versions @ page) w')
      else (Inr versions, w))"
  by pat_completeness auto
termination
  by (relation "measure (\<lambda>(net, owner, repo, lastVersion, i, versions, w). 4 - i)") auto

declare gitlab_more.simps [simp del]

definition gitlabReleases ::
  "network \<Rightarrow> string option \<Rightarrow> string option \<Rightarrow> world \<Rightarrow> (error + string list) \<times> world" where
  "gitlabReleases net owner repo w =
     (let cacheKey = owner_repo owner repo in
      case GL_CACHE w cacheKey of
        Some cached \<Rightarrow> (Inr cached, w)
      | None \<Rightarrow>
          (case gitlabDownloadReleases net owner repo 1 w of
             (Inl e, w1) \<Rightarrow> (Inl e, w1)
           | (Inr versions, w1) \<Rightarrow>
               (case (if length versions = 20
                      then gitlab_more net owner repo None 1 versions w1
                      else (Inr versions, w1)) of
                  (Inl e, w2) \<Rightarrow> (Inl e, w2)
                | (Inr all_versions, w2) \<Rightarrow>
                    (Inr all_versions,
                     w2\<lparr>GL_CACHE := (GL_CACHE w2)(cacheKey \<mapsto> all_versions)\<rparr>))))"

text \<open>The entries of a page of each feed, none when the fetch fails.\<close>

definition github_page ::
  "network \<Rightarrow> string option \<Rightarrow> string option \<Rightarrow> string option \<Rightarrow> string list" where
  "github_page net owner repo cursor =
     (case text_of net (github_url owner repo cursor) of
        Inl e \<Rightarrow> []
      | Inr text \<Rightarrow> first_groups text github_id_re)"

definition gitlab_page :: "network \<Rightarrow> string option \<Rightarrow> string option \<Rightarrow> nat \<Rightarrow> string list" where
  "gitlab_page net owner repo n =
     (case text_of net (gitlab_url owner repo n) of
        Inl e \<Rightarrow> []
      | Inr text \<Rightarrow> first_groups text gitlab_id_re)"

subsection \<open>The unpkg directory listing\<close>

text \<open>
  The pattern of \<^verbatim>\<open>unpkgVersions\<close>, without its escapes of the angle brackets and the
  equals sign: \<^verbatim>\<open>/<option[^<>]* value="(.*?)">/g\<close>
\<close>

definition option_re :: re where
  "option_re =
     cat [Lit ''<option'', Star (NoneOf ''<>''), Lit ('' value='' @ [CHR 0x22]),
          Grp 1 (LazyStar Dot), Lit [CHR 0x22, CHR ''>'']]"

definition unpkgVersions :: "network \<Rightarrow> string \<Rightarrow> world \<Rightarrow> (error + string list) \<times> world" where
  "unpkgVersions net name w =
     (let u = ''https://unpkg.com/browse/'' @ name @ ''/'' in
      case text_of net u of
        Inl e \<Rightarrow> (Inl e, fetched u w)
      | Inr text \<Rightarrow> (Inr (map first_group (rev (match_all text option_re))), fetched u w))"

subsection \<open>The nest.land upload log\<close>

text \<open>
  An entry of the result is \<^verbatim>\<open>name.split("@")[1]\<close>, \<^verbatim>\<open>undefined\<close> for a name without
  \<^verbatim>\<open>@\<close>. The function reads \<^verbatim>\<open>cache\<close> and never writes it.
\<close>

definition nestlandReleases ::
  "network \<Rightarrow> string \<Rightarrow> world \<Rightarrow> (error + string option list) \<times> world" where
  "nestlandReleases net repo w =
     (case NL_CACHE w repo of
        Some cached \<Rightarrow> (Inr (map Some cached), w)
      | None \<Rightarrow>
          (let u = ''https://x.nest.land/api/package/'' @ repo in
           case uploads_of net u of
             Inl e \<Rightarrow> (Inl e, fetched u w)
           | Inr None \<Rightarrow> (Inr [], fetched u w)
           | Inr (Some packageUploadNames) \<Rightarrow>
               (Inr (rev (map (\<lambda>name. at_index (split_on CHR ''@'' name) 1) packageUploadNames)),
                fetched u w)))"

subsection \<open>The JSON indexes\<close>

text \<open>
  \<^verbatim>\<open>DenoLand.name()\<close>: the match is destructured unchecked; when there is one, one of the
  two groups took part in it, so the last branch is never reached.
\<close>

definition DenoLand_name :: "string \<Rightarrow> error + string" where
  "DenoLand_name u =
     (case str_match u DenoLand_name_re of
        None \<Rightarrow> Inl TypeError
      | Some m \<Rightarrow>
          (case grp m 1 of
             Some stdGroup \<Rightarrow> Inr stdGroup
           | None \<Rightarrow> (case grp m 2 of Some xGroup \<Rightarrow> Inr xGroup | None \<Rightarrow> Inl TypeError)))"

definition scheme_name :: "re \<Rightarrow> string \<Rightarrow> error + string" where
  "scheme_name parseRegex u =
     (case str_match u parseRegex of
        None \<Rightarrow> Inl TypeError
      | Some m \<Rightarrow> Inr (tpl (grp m 1)))"

text \<open>
  The semantic-version library \<^verbatim>\<open>@std/semver\<close> is a parameter: \<open>parse\<close> gives \<open>None\<close>
  where the library throws, \<open>compare\<close> is its three-way comparison; \<^verbatim>\<open>canParse\<close> and
  \<^verbatim>\<open>lessThan\<close> are the library's wrappers of the two.
\<close>

record 'v semver =
  parse :: "string \<Rightarrow> 'v option"
  compare :: "'v \<Rightarrow> 'v \<Rightarrow> int"

definition canParse :: "'v semver \<Rightarrow> string option \<Rightarrow> bool" where
  "canParse sv v = (case v of None \<Rightarrow> False | Some s \<Rightarrow> parse sv s \<noteq> None)"

text \<open>\<^verbatim>\<open>Array.prototype.sort(cmp)\<close>: a stable sort.\<close>

fun insert_sorted :: "('a \<Rightarrow> 'a \<Rightarrow> int) \<Rightarrow> 'a \<Rightarrow> 'a list \<Rightarrow> 'a list" where
  "insert_sorted cmp x [] = [x]"
| "insert_sorted cmp x (y # ys) =
     (if cmp x y \<le> 0 then x # y # ys else y # insert_sorted cmp x ys)"

definition stable_sort :: "('a \<Rightarrow> 'a \<Rightarrow> int) \<Rightarrow> 'a list \<Rightarrow> 'a list" where
  "stable_sort cmp xs = foldr (insert_sorted cmp) xs []"

text \<open>
  \<^verbatim>\<open>keys.sort((vsrA, vsrB) => compare(parse(vsrB), parse(vsrA)))\<close>: with two keys or more
  every key reaches the comparison, and one that does not parse throws there.
\<close>

definition sort_descending :: "'v semver \<Rightarrow> string list \<Rightarrow> error + string list" where
  "sort_descending sv keys =
     (case those (map (\<lambda>k. map_option (Pair k) (parse sv k)) keys) of
        None \<Rightarrow> if length keys < 2 then Inr keys else Inl TypeError
      | Some parsed \<Rightarrow>
          Inr (map fst (stable_sort (\<lambda>a b. compare sv (snd b) (snd a)) parsed)))"

text \<open>
  The body shared by \<^verbatim>\<open>DenoLand.all\<close>, \<^verbatim>\<open>Jsr.all\<close> and \<^verbatim>\<open>Npm.all\<close> after the cache
  miss: the \<^verbatim>\<open>try\<close> block, whose \<^verbatim>\<open>catch\<close> logs and rethrows. \<open>order\<close> is what the class
  does to the field before caching it.
\<close>

definition fetch_index ::
  "network \<Rightarrow> string \<Rightarrow> string \<Rightarrow> (string list \<Rightarrow> error + string list) \<Rightarrow> world
    \<Rightarrow> (error + string list) \<times> world" where
  "fetch_index net u name order w =
     (case versions_of net u of
        Inl e \<Rightarrow> (Inl e, console_error (''error getting versions for '' @ name) (fetched u w))
      | Inr None \<Rightarrow>
          (Inl (Error (''versions.json for '' @ name @ '' has incorrect format'')),
           console_error (''error getting versions for '' @ name) (fetched u w))
      | Inr (Some field) \<Rightarrow>
          (case order field of
             Inl e \<Rightarrow>
               (Inl e, console_error (''error getting versions for '' @ name) (fetched u w))
           | Inr versions \<Rightarrow> (Inr versions, fetched u w)))"

definition DenoLand_all :: "network \<Rightarrow> string \<Rightarrow> world \<Rightarrow> (error + string list) \<times> world" where
  "DenoLand_all net u w =
     (case DenoLand_name u of
        Inl e \<Rightarrow> (Inl e, w)
      | Inr name \<Rightarrow>
          (case DL_CACHE w name of
             Some cached \<Rightarrow> (Inr cached, w)
           | None \<Rightarrow>
               (case fetch_index net (''https://cdn.deno.land/'' @ name @ ''/meta/versions.json'')
                       name Inr w of
                  (Inl e, w1) \<Rightarrow> (Inl e, w1)
                | (Inr versions, w1) \<Rightarrow>
                    (Inr versions, w1\<lparr>DL_CACHE := (DL_CACHE w1)(name \<mapsto> versions)\<rparr>))))"

definition Jsr_all ::
  "network \<Rightarrow> 'v semver \<Rightarrow> string \<Rightarrow> world \<Rightarrow> (error + string list) \<times> world" where
  "Jsr_all net sv u w =
     (case scheme_name Jsr_parseRegex u of
        Inl e \<Rightarrow> (Inl e, w)
      | Inr name \<Rightarrow>
          (case JSR_CACHE w name of
             Some cached \<Rightarrow> (Inr cached, w)
           | None \<Rightarrow>
               (case fetch_index net (''https://jsr.io/'' @ name @ ''/meta.json'') name
                       (sort_descending sv) w of
                  (Inl e, w1) \<Rightarrow> (Inl e, w1)
                | (Inr versions, w1) \<Rightarrow>
                    (Inr versions, w1\<lparr>JSR_CACHE := (JSR_CACHE w1)(name \<mapsto> versions)\<rparr>))))"

definition Npm_all :: "network \<Rightarrow> string \<Rightarrow> world \<Rightarrow> (error + string list) \<times> world" where
  "Npm_all net u w =
     (case scheme_name Npm_parseRegex u of
        Inl e \<Rightarrow> (Inl e, w)
      | Inr name \<Rightarrow>
          (case NPM_CACHE w name of
             Some cached \<Rightarrow> (Inr cached, w)
           | None \<Rightarrow>
               (case fetch_index net (''https://registry.npmjs.org/'' @ name) name
                       (\<lambda>keys. Inr (rev keys)) w of
                  (Inl e, w1) \<Rightarrow> (Inl e, w1)
                | (Inr versions, w1) \<Rightarrow>
                    (Inr versions, w1\<lparr>NPM_CACHE := (NPM_CACHE w1)(name \<mapsto> versions)\<rparr>))))"

subsection \<open>\<^verbatim>\<open>all()\<close>\<close>

definition scoped_all :: "network \<Rightarrow> string \<Rightarrow> world \<Rightarrow> (error + string list) \<times> world" where
  "scoped_all net u w =
     (case defaultInfo u of
        Inl e \<Rightarrow> (Inl e, w)
      | Inr info \<Rightarrow> unpkgVersions net (scope info @ ''/'' @ packageName info) w)"

definition named_all :: "network \<Rightarrow> string \<Rightarrow> world \<Rightarrow> (error + string list) \<times> world" where
  "named_all net u w =
     (case defaultName u of
        Inl e \<Rightarrow> (Inl e, w)
      | Inr name \<Rightarrow> unpkgVersions net (tpl name) w)"

text \<open>\<^verbatim>\<open>githubReleases(this.owner(), this.repo())\<close> of \<^verbatim>\<open>Denopkg\<close> and \<^verbatim>\<open>PaxDenoDev\<close>.\<close>

definition owner_repo_all :: "network \<Rightarrow> string \<Rightarrow> world \<Rightarrow> (error + string list) \<times> world" where
  "owner_repo_all net u w =
     (case defaultName u of
        Inl e \<Rightarrow> (Inl e, w)
      | Inr repo \<Rightarrow> githubReleases net (at_index (split_on CHR ''/'' u) 3) repo w)"

definition JsDelivr_all :: "network \<Rightarrow> string \<Rightarrow> world \<Rightarrow> (error + string list) \<times> world" where
  "JsDelivr_all net u w =
     (case JsDelivr_parts u of
        Inl e \<Rightarrow> (Inl e, w)
      | Inr p \<Rightarrow> githubReleases net (jd_user p) (Some (jd_repo p)) w)"

definition NestLand_all ::
  "network \<Rightarrow> string \<Rightarrow> world \<Rightarrow> (error + string option list) \<times> world" where
  "NestLand_all net u w =
     (case at_index (split_on CHR ''/'' u) 3 of
        None \<Rightarrow> (Inl TypeError, w)
      | Some p3 \<Rightarrow> nestlandReleases net (hd (split_on CHR ''@'' p3)) w)"

definition strings :: "(error + string list) \<times> world \<Rightarrow> (error + string option list) \<times> world" where
  "strings r = (map_sum id (map Some) (fst r), snd r)"

fun all_by ::
  "network \<Rightarrow> 'v semver \<Rightarrow> registry \<Rightarrow> string \<Rightarrow> world
    \<Rightarrow> (error + string option list) \<times> world" where
  "all_by net sv Jsr u w = strings (Jsr_all net sv u w)"
| "all_by net sv DenoLand u w = strings (DenoLand_all net u w)"
| "all_by net sv Npm u w = strings (Npm_all net u w)"
| "all_by net sv UnpkgScope u w = strings (scoped_all net u w)"
| "all_by net sv PikaScope u w = strings (scoped_all net u w)"
| "all_by net sv SkypackScope u w = strings (scoped_all net u w)"
| "all_by net sv EsmShScope u w = strings (scoped_all net u w)"
| "all_by net sv Denopkg u w = strings (owner_repo_all net u w)"
| "all_by net sv PaxDenoDev u w = strings (owner_repo_all net u w)"
| "all_by net sv GithubRaw u w =
     strings (githubReleases net (at_index (split_on CHR ''/'' u) 3)
                (at_index (split_on CHR ''/'' u) 4) w)"
| "all_by net sv GitlabRaw u w =
     strings (gitlabReleases net (at_index (split_on CHR ''/'' u) 3)
                (at_index (split_on CHR ''/'' u) 4) w)"
| "all_by net sv JsDelivr u w = strings (JsDelivr_all net u w)"
| "all_by net sv NestLand u w = NestLand_all net u w"
| "all_by net sv R u w = strings (named_all net u w)"

definition all_versions ::
  "network \<Rightarrow> 'v semver \<Rightarrow> registry_url \<Rightarrow> world \<Rightarrow> (error + string option list) \<times> world" where
  "all_versions net sv r w = all_by net sv (kind r) (url r) w"





section \<open>The upgrade engine\<close>

text \<open>\<^verbatim>\<open>/(@deco\/.*)|(apps)|(deco)|(\$live)|(deco-sites\/.*\/$)|(partytown)/\<close>\<close>

definition PACKAGES_TO_CHECK :: re where
  "PACKAGES_TO_CHECK =
     Alt (Grp 1 (cat [Lit ''@deco/'', Star Dot]))
    (Alt (Grp 2 (Lit ''apps''))
    (Alt (Grp 3 (Lit ''deco''))
    (Alt (Grp 4 (Lit ''$live''))
    (Alt (Grp 5 (cat [Lit ''deco-sites/'', Star Dot, Lit ''/'', Eol]))
         (Grp 6 (Lit ''partytown''))))))"

text \<open>The table \<^verbatim>\<open>requiredMinVersion\<close>: its one entry is commented out in the source.\<close>

definition requiredMinVersion :: "(string \<times> string) list" where
  "requiredMinVersion = []"

record pkg_info =
  pkg_url :: registry_url
  latest :: "string option"
  current :: "string option"

text \<open>
  Modelled from the spec: \<^verbatim>\<open>pkgInfo\<close> of \<^verbatim>\<open>./pkg.ts\<close>, which \<^verbatim>\<open>upgradeDeps\<close> imports and
  the sources do not contain. After the spec (4.4, step 2, and 7): the specifier is
  classified by the lookup dispatcher, no match being \<^verbatim>\<open>undefined\<close> and not an error;
  \<^verbatim>\<open>all()\<close> is fetched and \<open>latest\<close> is its entry 0; \<open>current\<close> is \<^verbatim>\<open>version()\<close> of the
  specifier. The fetch of \<^verbatim>\<open>all()\<close> is the parameter \<open>fetch_all\<close>, to which the
  pre-release flag is forwarded.
\<close>

definition pkgInfo ::
  "(bool \<Rightarrow> registry_url \<Rightarrow> error + string option list) \<Rightarrow> string \<Rightarrow> bool
    \<Rightarrow> error + pkg_info option" where
  "pkgInfo fetch_all importUrl allowPre =
     (case lookup importUrl REGISTRIES of
        None \<Rightarrow> Inr None
      | Some u \<Rightarrow>
          (case fetch_all allowPre u of
             Inl e \<Rightarrow> Inl e
           | Inr versions \<Rightarrow>
               (case version u of
                  Inl e \<Rightarrow> Inl e
                | Inr currentVersion \<Rightarrow>
                    Inr (Some \<lparr>pkg_url = u,
                               latest = (case versions of [] \<Rightarrow> None | v # _ \<Rightarrow> v),
                               current = currentVersion\<rparr>))))"

text \<open>A line given to \<^verbatim>\<open>logger\<close>, plain or wrapped in \<^verbatim>\<open>colors.yellow\<close>.\<close>

datatype log_line = Plain string | Yellow string

text \<open>
  What \<^verbatim>\<open>upgradeDeps\<close> changes: its flag, the \<^verbatim>\<open>imports\<close> object (keys in the order
  \<^verbatim>\<open>Object.keys\<close> lists them), which it updates in place, and the lines logged.
\<close>

record upgrade_state =
  upgradeFound :: bool
  importsMap :: "(string \<times> string) list"
  logged :: "log_line list"

text \<open>\<^verbatim>\<open>imports[pkg] = specifier\<close>\<close>

fun assign :: "string \<Rightarrow> string \<Rightarrow> (string \<times> string) list \<Rightarrow> (string \<times> string) list" where
  "assign pkg specifier [] = [(pkg, specifier)]"
| "assign pkg specifier ((k, v) # m) =
     (if k = pkg then (k, specifier) # m else (k, v) # assign pkg specifier m)"

text \<open>\<^verbatim>\<open>logs && logger(line)\<close>\<close>

definition logger :: "bool \<Rightarrow> log_line \<Rightarrow> upgrade_state \<Rightarrow> upgrade_state" where
  "logger logs line st = (if logs then st\<lparr>logged := logged st @ [line]\<rparr> else st)"

text \<open>
  The body of the callback after \<^verbatim>\<open>await pkgInfo(...)\<close>; it has no further \<^verbatim>\<open>await\<close>,
  so it runs in one piece. \<open>force\<close> is \<^verbatim>\<open>Deno.args.includes("force")\<close>. The result is
  the error thrown, if any, and the state left.
\<close>

definition upgrade_entry ::
  "'v semver \<Rightarrow> bool \<Rightarrow> bool \<Rightarrow> string \<Rightarrow> pkg_info option \<Rightarrow> upgrade_state
    \<Rightarrow> error option \<times> upgrade_state" where
  "upgrade_entry sv force logs pkg info st =
     (case info of
        None \<Rightarrow> (None, st)
      | Some i \<Rightarrow>
          (case latest i of
             None \<Rightarrow> (None, st)
           | Some latestVersion \<Rightarrow>
               if latestVersion = [] then (None, st)
               else if \<not> canParse sv (current i) \<and> \<not> force then
                 (None,
                  logger logs
                    (Yellow (''skipping '' @ pkg @ '' '' @ tpl (current i) @ '' -> ''
                             @ latestVersion @ ''. Use --force to upgrade.'')) st)
               else if current i \<noteq> Some latestVersion then
                 (let st1 =
                        (logger logs
                           (Plain (''upgrading '' @ pkg @ '' '' @ tpl (current i) @ '' -> ''
                                   @ latestVersion @ ''.'')) st)\<lparr>upgradeFound := True\<rparr>
                  in case at (pkg_url i) latestVersion of
                       Inl e \<Rightarrow> (Some e, st1)
                     | Inr upgraded \<Rightarrow>
                         (None, st1\<lparr>importsMap := assign pkg (url upgraded) (importsMap st1)\<rparr>))
               else (None, st)))"

text \<open>
  \<^verbatim>\<open>await Promise.all(entries.map(async (pkg) => ...))\<close>. Every callback reads
  \<^verbatim>\<open>imports[pkg]\<close> and calls \<^verbatim>\<open>pkgInfo\<close> when the batch starts, and runs the rest of its body
  when its \<^verbatim>\<open>pkgInfo\<close> settles. The list holds the selected entries in the order in which
  they settle, which the code leaves open. The first callback that throws rejects the
  \<^verbatim>\<open>Promise.all\<close>, and with it \<^verbatim>\<open>upgradeDeps\<close>; the state returned with an error is the
  one the caller finds at that rejection.
\<close>

fun concurrent_pass ::
  "'v semver \<Rightarrow> (bool \<Rightarrow> registry_url \<Rightarrow> error + string option list) \<Rightarrow> bool \<Rightarrow> bool \<Rightarrow> bool
    \<Rightarrow> (string \<times> string) list \<Rightarrow> upgrade_state \<Rightarrow> error option \<times> upgrade_state" where
  "concurrent_pass sv fetch_all force allowPre logs [] st = (None, st)"
| "concurrent_pass sv fetch_all force allowPre logs ((pkg, specifier) # later) st =
     (case pkgInfo fetch_all specifier allowPre of
        Inl e \<Rightarrow> (Some e, st)
      | Inr info \<Rightarrow>
          (case upgrade_entry sv force logs pkg info st of
             (Some e, st') \<Rightarrow> (Some e, st')
           | (None, st') \<Rightarrow> concurrent_pass sv fetch_all force allowPre logs later st'))"

text \<open>
  The condition of the second pass:
  \<^verbatim>\<open>!currentVersion || semver.lessThan(semver.parse(currentVersion), semver.parse(minVer))\<close>
\<close>

definition below_minimum :: "'v semver \<Rightarrow> string option \<Rightarrow> string \<Rightarrow> error + bool" where
  "below_minimum sv currentVersion minVer =
     (if \<not> truthy currentVersion then Inr True
      else (case parse sv (tpl currentVersion) of
              None \<Rightarrow> Inl TypeError
            | Some c \<Rightarrow>
                (case parse sv minVer of
                   None \<Rightarrow> Inl TypeError
                 | Some m \<Rightarrow> Inr (compare sv c m < 0))))"

text \<open>The loop over \<^verbatim>\<open>Object.entries(requiredMinVersion)\<close>.\<close>

fun min_version_pass ::
  "'v semver \<Rightarrow> bool \<Rightarrow> (string \<times> string) list \<Rightarrow> upgrade_state
    \<Rightarrow> error option \<times> upgrade_state" where
  "min_version_pass sv logs [] st = (None, st)"
| "min_version_pass sv logs ((pkg, minVer) # table) st =
     (if \<not> truthy (map_of (importsMap st) pkg) then min_version_pass sv logs table st
      else
        (let specifier = tpl (map_of (importsMap st) pkg);
             found = lookup specifier REGISTRIES
         in case (case found of None \<Rightarrow> Inr None | Some u \<Rightarrow> version u) of
              Inl e \<Rightarrow> (Some e, st)
            | Inr currentVersion \<Rightarrow>
                (case below_minimum sv currentVersion minVer of
                   Inl e \<Rightarrow> (Some e, st)
                 | Inr False \<Rightarrow> min_version_pass sv logs table st
                 | Inr True \<Rightarrow>
                     (let st1 =
                            (logger logs
                               (Plain (''upgrading '' @ pkg @ '' '' @ tpl currentVersion
                                       @ '' -> '' @ minVer @ ''.'')) st)\<lparr>upgradeFound := True\<rparr>
                      in case found of
                           None \<Rightarrow> min_version_pass sv logs table st1
                         | Some u \<Rightarrow>
                             (case at u minVer of
                                Inl e \<Rightarrow> (Some e, st1)
                              | Inr raised \<Rightarrow>
                                  min_version_pass sv logs table
                                    (st1\<lparr>importsMap := assign pkg (url raised) (importsMap st1)\<rparr>))))))"

text \<open>
  \<^verbatim>\<open>upgradeDeps(importMap, logs, deps, logger)\<close>. Before the arguments of the source come
  what the function takes from its environment: the semantic-version library, the fetch
  behind \<^verbatim>\<open>pkgInfo\<close>, the order \<open>settle\<close> in which the selected entries settle, and the
  flags \<^verbatim>\<open>force\<close> and \<^verbatim>\<open>allow-pre\<close> of the command line. \<open>importMap\<close> is the field
  \<^verbatim>\<open>importMap.imports\<close>, \<open>None\<close> when absent; \<open>deps\<close> is a pattern without the \<^verbatim>\<open>g\<close> flag.
  The result is the boolean the promise resolves to, or the error it is rejected with.
\<close>

definition starting :: "bool \<Rightarrow> (string \<times> string) list option \<Rightarrow> upgrade_state" where
  "starting logs importMap =
     logger logs (Plain ''looking up latest versions'')
       \<lparr>upgradeFound = False,
        importsMap = (case importMap of None \<Rightarrow> [] | Some m \<Rightarrow> m),
        logged = []\<rparr>"

definition selected :: "re \<Rightarrow> upgrade_state \<Rightarrow> (string \<times> string) list" where
  "selected deps st = filter (\<lambda>(pkg, specifier). re_test deps pkg) (importsMap st)"

definition upgradeDeps ::
  "'v semver \<Rightarrow> (bool \<Rightarrow> registry_url \<Rightarrow> error + string option list)
    \<Rightarrow> ((string \<times> string) list \<Rightarrow> (string \<times> string) list) \<Rightarrow> bool \<Rightarrow> bool
    \<Rightarrow> (string \<times> string) list option \<Rightarrow> bool \<Rightarrow> re
    \<Rightarrow> (error + bool) \<times> upgrade_state" where
  "upgradeDeps sv fetch_all settle force allowPre importMap logs deps =
     (case concurrent_pass sv fetch_all force allowPre logs
             (settle (selected deps (starting logs importMap))) (starting logs importMap) of
        (Some e, st1) \<Rightarrow> (Inl e, st1)
      | (None, st1) \<Rightarrow>
          (case min_version_pass sv logs requiredMinVersion st1 of
             (Some e, st2) \<Rightarrow> (Inl e, st2)
           | (None, st2) \<Rightarrow>
               (Inr (upgradeFound st2),
                if upgradeFound st2 then st2
                else logger logs
                       (Plain ''dependencies are on the most recent releases of your dependencies!'')
                       st2)))"

section \<open>Concrete inputs\<close>

subsection \<open>A semantic-version library\<close>

text \<open>
  To run the engine on an example the parameter \<open>sv\<close> needs a value. This one follows the
  grammar and the precedence of Semantic Versioning 2.0.0: three numeric identifiers, an
  optional pre-release after \<^verbatim>\<open>-\<close> and optional build metadata after \<^verbatim>\<open>+\<close>.
\<close>

record sem_version =
  major :: nat
  minor :: nat
  patch :: nat
  prerelease :: "(nat + string) list"
  build :: "string list"

definition is_ident_char :: "char \<Rightarrow> bool" where
  "is_ident_char c =
     (is_digit c \<or> c = CHR ''-'' \<or> (65 \<le> (of_char c :: nat) \<and> (of_char c :: nat) \<le> 90)
      \<or> (97 \<le> (of_char c :: nat) \<and> (of_char c :: nat) \<le> 122))"

definition cut :: "char \<Rightarrow> string \<Rightarrow> string \<times> string option" where
  "cut c s =
     (takeWhile (\<lambda>x. x \<noteq> c) s,
      case dropWhile (\<lambda>x. x \<noteq> c) s of [] \<Rightarrow> None | _ # r \<Rightarrow> Some r)"

definition numeric_identifier :: "string \<Rightarrow> nat option" where
  "numeric_identifier s =
     (if s \<noteq> [] \<and> list_all is_digit s \<and> (length s = 1 \<or> hd s \<noteq> CHR ''0'')
      then Some (foldl (\<lambda>n c. 10 * n + digit_val c) 0 s) else None)"

definition prerelease_identifier :: "string \<Rightarrow> (nat + string) option" where
  "prerelease_identifier s =
     (if s = [] \<or> \<not> list_all is_ident_char s then None
      else if list_all is_digit s then map_option Inl (numeric_identifier s)
      else Some (Inr s))"

definition identifiers :: "(string \<Rightarrow> 'a option) \<Rightarrow> string option \<Rightarrow> 'a list option" where
  "identifiers f part =
     (case part of None \<Rightarrow> Some [] | Some p \<Rightarrow> those (map f (split_on CHR ''.'' p)))"

definition semver_parse :: "string \<Rightarrow> sem_version option" where
  "semver_parse s =
     (case cut CHR ''+'' s of
        (s1, meta) \<Rightarrow>
          (case cut CHR ''-'' s1 of
             (core, pre) \<Rightarrow>
               (case map numeric_identifier (split_on CHR ''.'' core) of
                  [Some a, Some b, Some c] \<Rightarrow>
                    (case identifiers prerelease_identifier pre of
                       None \<Rightarrow> None
                     | Some ids \<Rightarrow>
                         (case identifiers
                                 (\<lambda>i. if i \<noteq> [] \<and> list_all is_ident_char i then Some i
                                      else None) meta of
                            None \<Rightarrow> None
                          | Some bs \<Rightarrow>
                              Some \<lparr>major = a, minor = b, patch = c, prerelease = ids,
                                    build = bs\<rparr>))
                | _ \<Rightarrow> None)))"

definition three_way :: "nat \<Rightarrow> nat \<Rightarrow> int" where
  "three_way a b = (if a < b then - 1 else if b < a then 1 else 0)"

fun compare_text :: "string \<Rightarrow> string \<Rightarrow> int" where
  "compare_text [] [] = 0"
| "compare_text [] (y # ys) = - 1"
| "compare_text (x # xs) [] = 1"
| "compare_text (x # xs) (y # ys) =
     (if x = y then compare_text xs ys else three_way (of_char x) (of_char y))"

fun compare_identifier :: "nat + string \<Rightarrow> nat + string \<Rightarrow> int" where
  "compare_identifier (Inl a) (Inl b) = three_way a b"
| "compare_identifier (Inl a) (Inr b) = - 1"
| "compare_identifier (Inr a) (Inl b) = 1"
| "compare_identifier (Inr a) (Inr b) = compare_text a b"

fun compare_prerelease :: "(nat + string) list \<Rightarrow> (nat + string) list \<Rightarrow> int" where
  "compare_prerelease [] [] = 0"
| "compare_prerelease [] (y # ys) = - 1"
| "compare_prerelease (x # xs) [] = 1"
| "compare_prerelease (x # xs) (y # ys) =
     (if compare_identifier x y = 0 then compare_prerelease xs ys else compare_identifier x y)"

definition semver_compare :: "sem_version \<Rightarrow> sem_version \<Rightarrow> int" where
  "semver_compare a b =
     (if major a \<noteq> major b then three_way (major a) (major b)
      else if minor a \<noteq> minor b then three_way (minor a) (minor b)
      else if patch a \<noteq> patch b then three_way (patch a) (patch b)
      else if prerelease a = [] \<and> prerelease b = [] then 0
      else if prerelease a = [] then 1
      else if prerelease b = [] then - 1
      else compare_prerelease (prerelease a) (prerelease b))"

definition semver_2 :: "sem_version semver" where
  "semver_2 = \<lparr>parse = semver_parse, compare = semver_compare\<rparr>"

subsection \<open>Worlds, networks and feeds\<close>

text \<open>The state of a process that has fetched nothing yet.\<close>

definition fresh :: world where
  "fresh = \<lparr>GR_CACHE = Map.empty, DL_CACHE = Map.empty, JSR_CACHE = Map.empty,
            NPM_CACHE = Map.empty, GL_CACHE = Map.empty, NL_CACHE = Map.empty,
            requests = [], console = []\<rparr>"

text \<open>A network whose pages are empty and whose JSON documents lack the field read.\<close>

definition blank :: network where
  "blank = \<lparr>text_of = (\<lambda>u. Inr []), versions_of = (\<lambda>u. Inr None),
            uploads_of = (\<lambda>u. Inr None)\<rparr>"

text \<open>
  A GitLab tags feed that never ends: every page holds twenty entries, one to a line, all
  tagged \<^verbatim>\<open>v\<close> and the last character of the url asked, which is the page number.
\<close>

definition gitlab_entry :: "string \<Rightarrow> string" where
  "gitlab_entry tag = ''<id>https://gitlab.com/o/r/-/tags/'' @ tag @ ''</id>'' @ [CHR 0x0A]"

definition endless_gitlab :: network where
  "endless_gitlab =
     blank\<lparr>text_of := (\<lambda>u. Inr (concat (replicate 20 (gitlab_entry [CHR ''v'', last u]))))\<rparr>"

text \<open>
  A GitHub releases feed that never ends: every page holds ten entries, all tagged
  \<^verbatim>\<open>b\<close> when the url asked ends in \<^verbatim>\<open>a\<close> and \<^verbatim>\<open>a\<close> otherwise, so that a page never
  ends in the cursor it was asked with.
\<close>

definition github_entry :: "string \<Rightarrow> string" where
  "github_entry tag = ''<id>tag:github.com,2008:Repository/1/'' @ tag @ ''</id>'' @ [CHR 0x0A]"

definition endless_github :: network where
  "endless_github =
     blank\<lparr>text_of := (\<lambda>u. Inr (concat (replicate 10
        (github_entry (if last u = CHR ''a'' then ''b'' else ''a'')))))\<rparr>"


text \<open>Fetches of \<^verbatim>\<open>all()\<close>: one that answers every url alike, one that fails for \<^verbatim>\<open>npm:\<close>.\<close>

definition two_versions :: "bool \<Rightarrow> registry_url \<Rightarrow> error + string option list" where
  "two_versions allowPre u = Inr [Some ''1.2.0'', Some ''1.0.0'']"

definition npm_down :: "bool \<Rightarrow> registry_url \<Rightarrow> error + string option list" where
  "npm_down allowPre u =
     (if kind u = Npm then Inl (FetchFailed ''registry.npmjs.org'')
      else Inr [Some ''1.2.0'', Some ''1.0.0''])"

text \<open>The entries settle in the order of the keys.\<close>

definition in_order :: "(string \<times> string) list \<Rightarrow> (string \<times> string) list" where
  "in_order entries = entries"

text \<open>A dependency map of two entries, the second of which is fetched from npm.\<close>

definition two_entries :: "(string \<times> string) list" where
  "two_entries = [(''@deco/a'', ''jsr:@deco/a@1.0.0''), (''@deco/b'', ''npm:b@1.0.0'')]"

text \<open>The inclusion pattern \<^verbatim>\<open>/@scope\/.*/\<close>.\<close>

definition scope_pattern :: re where
  "scope_pattern = cat [Lit ''@scope/'', Star Dot]"

text \<open>\<^verbatim>\<open>at(v).version()\<close>\<close>

definition at_version :: "registry_url \<Rightarrow> string \<Rightarrow> error + string option" where
  "at_version r v = (case at r v of Inl e \<Rightarrow> Inl e | Inr r' \<Rightarrow> version r')"

section \<open>Rewriting to a version and reading it back\<close>

lemma kind_new [simp]: "kind (new R u) = R"
  by (simp add: new_def)

lemma url_new [simp]: "url (new R u) = u"
  by (simp add: new_def)

text \<open>
  Every \<^verbatim>\<open>at\<close> but two constructs an instance of its own class: the result of \<^verbatim>\<open>at\<close> has
  the class of the receiver unless the receiver is a \<^verbatim>\<open>JsDelivr\<close> or a \<^verbatim>\<open>GitlabRaw\<close>.
\<close>

lemma at_keeps_class:
  assumes "at r v = Inr r'" and "kind r \<noteq> JsDelivr" and "kind r \<noteq> GitlabRaw"
  shows "kind r' = kind r"
  using assms
  by (cases "kind r") (auto simp: at_def construct_def new_def split: sum.splits)

text \<open>
  On an example of each of the other sixteen classes, \<^verbatim>\<open>at("9.9.9").version()\<close> is
  \<^verbatim>\<open>"9.9.9"\<close>.
\<close>

lemma at_version_examples:
  "list_all (\<lambda>r. at_version r ''9.9.9'' = Inr (Some ''9.9.9''))
     [new Jsr ''jsr:@scope/pkg@^1.0.0/mod.ts'',
      new DenoLand ''https://deno.land/std@0.1.0/fs/mod.ts'',
      new UnpkgScope ''https://unpkg.com/@scope/pkg@1.0.0/index.js'',
      new Unpkg ''https://unpkg.com/pkg@1.0.0/index.js'',
      new Denopkg ''https://denopkg.com/user/repo@1.0.0/mod.ts'',
      new PaxDenoDev ''https://pax.deno.dev/user/repo@1.0.0/mod.ts'',
      new Jspm ''https://dev.jspm.io/pkg@1.0.0'',
      new PikaScope ''https://cdn.pika.dev/@scope/pkg@1.0.0'',
      new Pika ''https://cdn.pika.dev/pkg@1.0.0'',
      new SkypackScope ''https://cdn.skypack.dev/@scope/pkg@1.0.0'',
      new Skypack ''https://cdn.skypack.dev/pkg@1.0.0'',
      new EsmShScope ''https://esm.sh/@scope/pkg@1.0.0'',
      new EsmSh ''https://esm.sh/pkg@1.0.0/x'',
      new GithubRaw ''https://raw.githubusercontent.com/user/repo/1.0.0/mod.ts'',
      new NestLand ''https://x.nest.land/pkg@1.0.0/mod.ts'',
      new Npm ''npm:@scope/pkg@1.0.0/sub'']"
  by code_simp

text \<open>
  C1. For every dialect, \<^verbatim>\<open>at(v).version()\<close> on a canonical specifier is \<open>v\<close>. The code
  breaks this for two dialects: \<^verbatim>\<open>JsDelivr.at\<close> and \<^verbatim>\<open>GitlabRaw.at\<close> return a
  \<^verbatim>\<open>GithubRaw\<close>, whose \<^verbatim>\<open>version()\<close> reads segment 5 of the url. For the jsDelivr
  specifier that is \<^verbatim>\<open>repo@2.0.0\<close>, and for the GitLab one it is \<^verbatim>\<open>-\<close>, not the version
  \<^verbatim>\<open>2.0.0\<close> just written.
\<close>

theorem at_version_of_JsDelivr_and_GitlabRaw:
  "at_version (new JsDelivr ''https://cdn.jsdelivr.net/gh/user/repo@1.0.0/mod.ts'') ''2.0.0''
     = Inr (Some ''repo@2.0.0'')
   \<and> at_version (new GitlabRaw ''https://gitlab.com/user/repo/-/raw/1.0.0/mod.ts'') ''2.0.0''
     = Inr (Some ''-'')"
  by code_simp

text \<open>
  C2. \<^verbatim>\<open>u.at(v)\<close> is a new instance of the class of \<open>u\<close>. The code breaks this for
  \<^verbatim>\<open>JsDelivr\<close> and \<^verbatim>\<open>GitlabRaw\<close>, whose \<^verbatim>\<open>at\<close> ends in \<^verbatim>\<open>new GithubRaw(...)\<close>: on a
  specifier of each, the class of the result is \<^verbatim>\<open>GithubRaw\<close>.
\<close>

theorem at_of_JsDelivr_and_GitlabRaw_is_GithubRaw:
  "map_sum id kind
     (at (new JsDelivr ''https://cdn.jsdelivr.net/gh/user/repo@1.0.0/mod.ts'') ''2.0.0'')
     = Inr GithubRaw
   \<and> map_sum id kind
     (at (new GitlabRaw ''https://gitlab.com/user/repo/-/raw/1.0.0/mod.ts'') ''2.0.0'')
     = Inr GithubRaw"
  by code_simp

section \<open>Reading the version of a specifier without one\<close>

text \<open>
  C8. \<^verbatim>\<open>version()\<close> returns the pinned version or throws "Unable to find version in
  ...", and does nothing else. The code breaks this where its guard compares with
  \<^verbatim>\<open>null\<close>: the specifier \<^verbatim>\<open>npm:lodash\<close>, which the dispatcher classifies as \<^verbatim>\<open>Npm\<close>,
  carries no version and \<^verbatim>\<open>version()\<close> returns \<^verbatim>\<open>undefined\<close>; for \<^verbatim>\<open>jsr:@std/path\<close>,
  classified as \<^verbatim>\<open>Jsr\<close>, it throws a \<^verbatim>\<open>TypeError\<close>.
\<close>

theorem version_of_unversioned_npm_and_jsr:
  "lookup ''npm:lodash'' REGISTRIES = Some (new Npm ''npm:lodash'')
   \<and> version (new Npm ''npm:lodash'') = Inr None
   \<and> lookup ''jsr:@std/path'' REGISTRIES = Some (new Jsr ''jsr:@std/path'')
   \<and> version (new Jsr ''jsr:@std/path'') = Inl TypeError"
  by code_simp

section \<open>The dispatcher\<close>

text \<open>\<^verbatim>\<open>lookup\<close> is a search for the first class whose pattern matches.\<close>

lemma lookup_find:
  "lookup u rs = map_option (\<lambda>R. new R u) (find (\<lambda>R. re_test (regexp R) u) rs)"
  by (induction rs) auto

lemma lookup_append:
  "lookup u (xs @ ys) = (case lookup u xs of None \<Rightarrow> lookup u ys | Some r \<Rightarrow> Some r)"
  by (induction xs) auto

lemma lookup_None: "lookup u rs = None \<longleftrightarrow> (\<forall>R\<in>set rs. \<not> re_test (regexp R) u)"
  by (induction rs) auto

lemma lookup_Some: "lookup u rs = Some r \<Longrightarrow> kind r \<in> set rs \<and> r = new (kind r) u"
  by (induction rs) (auto simp: new_def split: if_splits)

text \<open>
  The search split at a class \<open>S\<close> of the list: the classes listed before \<open>S\<close> are tried
  first, then \<open>S\<close>, then the classes listed after it.
\<close>

lemma lookup_from:
  assumes "S \<in> set rs"
  shows "lookup u rs =
     (case lookup u (takeWhile (\<lambda>R. R \<noteq> S) rs) of
        None \<Rightarrow> (if re_test (regexp S) u then Some (new S u)
                 else lookup u (tl (dropWhile (\<lambda>R. R \<noteq> S) rs)))
      | Some r \<Rightarrow> Some r)"
proof -
  from assms obtain others where d: "dropWhile (\<lambda>R. R \<noteq> S) rs = S # others"
    by (metis (mono_tags, lifting) dropWhile_eq_Nil_conv hd_dropWhile list.exhaust_sel)
  have "rs = takeWhile (\<lambda>R. R \<noteq> S) rs @ S # others"
    using d by (metis takeWhile_dropWhile_id)
  then have "lookup u rs = lookup u (takeWhile (\<lambda>R. R \<noteq> S) rs @ S # others)"
    by simp
  then show ?thesis
    by (simp add: lookup_append d split: option.splits)
qed

lemma pairs_order:
  assumes "(S, U) \<in> set scoped_pairs"
  shows "S \<in> set REGISTRIES \<and> U \<notin> set (takeWhile (\<lambda>R. R \<noteq> S) REGISTRIES) \<and> U \<noteq> S
    \<and> U \<in> set REGISTRIES"
  using assms by (auto simp: scoped_pairs_def REGISTRIES_def)

text \<open>
  C5, as amended. \<^verbatim>\<open>lookup\<close> returns an instance of the first class of the list whose
  pattern matches the specifier, and \<^verbatim>\<open>undefined\<close> when none does. In \<^verbatim>\<open>REGISTRIES\<close>
  every scoped class \<open>S\<close> stands before its unscoped counterpart \<open>U\<close>; so a specifier that
  \<open>S\<close> matches is never classified as \<open>U\<close>, and a specifier that both match is classified
  as \<open>S\<close> when no class listed before \<open>S\<close> matches it.
\<close>

theorem lookup_first_match_scoped_first:
  "lookup u rs = map_option (\<lambda>R. new R u) (find (\<lambda>R. re_test (regexp R) u) rs)
   \<and> ((S, U) \<in> set scoped_pairs \<longrightarrow>
        S \<in> set REGISTRIES \<and> U \<in> set REGISTRIES
        \<and> U \<notin> set (takeWhile (\<lambda>R. R \<noteq> S) REGISTRIES @ [S])
        \<and> (re_test (regexp S) u \<longrightarrow> lookup u REGISTRIES \<noteq> Some (new U u))
        \<and> (re_test (regexp S) u \<and> re_test (regexp U) u
             \<and> (\<forall>R\<in>set (takeWhile (\<lambda>R. R \<noteq> S) REGISTRIES). \<not> re_test (regexp R) u)
            \<longrightarrow> lookup u REGISTRIES = Some (new S u)))"
proof (intro conjI impI)
  show "lookup u rs = map_option (\<lambda>R. new R u) (find (\<lambda>R. re_test (regexp R) u) rs)"
    by (rule lookup_find)
next
  assume p: "(S, U) \<in> set scoped_pairs"
  show "S \<in> set REGISTRIES" "U \<in> set REGISTRIES"
    "U \<notin> set (takeWhile (\<lambda>R. R \<noteq> S) REGISTRIES @ [S])"
    using pairs_order [OF p] by auto
next
  assume p: "(S, U) \<in> set scoped_pairs" and s: "re_test (regexp S) u"
  note o = pairs_order [OF p]
  show "lookup u REGISTRIES \<noteq> Some (new U u)"
  proof (cases "lookup u (takeWhile (\<lambda>R. R \<noteq> S) REGISTRIES)")
    case None
    then have "lookup u REGISTRIES = Some (new S u)"
      using o s lookup_from [of S REGISTRIES u] by simp
    then show ?thesis using o by (auto simp: new_def)
  next
    case (Some r)
    then have "lookup u REGISTRIES = Some r"
      using o lookup_from [of S REGISTRIES u] by simp
    moreover have "kind r \<in> set (takeWhile (\<lambda>R. R \<noteq> S) REGISTRIES)"
      using lookup_Some [OF Some] by simp
    ultimately show ?thesis using o by (auto simp: new_def)
  qed
next
  assume p: "(S, U) \<in> set scoped_pairs"
    and s: "re_test (regexp S) u \<and> re_test (regexp U) u
      \<and> (\<forall>R\<in>set (takeWhile (\<lambda>R. R \<noteq> S) REGISTRIES). \<not> re_test (regexp R) u)"
  note o = pairs_order [OF p]
  from s have "lookup u (takeWhile (\<lambda>R. R \<noteq> S) REGISTRIES) = None"
    by (simp add: lookup_None)
  then show "lookup u REGISTRIES = Some (new S u)"
    using o s lookup_from [of S REGISTRIES u] by simp
qed

text \<open>
  The specifier \<^verbatim>\<open>https://unpkg.com/@scope/pkg@1.0.0/index.js\<close> matches the patterns of
  \<^verbatim>\<open>UnpkgScope\<close> and of \<^verbatim>\<open>Unpkg\<close> and of no class listed before them: it is classified
  as \<^verbatim>\<open>UnpkgScope\<close>.
\<close>

theorem lookup_first_match_scoped_first_witness:
  "(UnpkgScope, Unpkg) \<in> set scoped_pairs
   \<and> re_test (regexp UnpkgScope) ''https://unpkg.com/@scope/pkg@1.0.0/index.js''
   \<and> re_test (regexp Unpkg) ''https://unpkg.com/@scope/pkg@1.0.0/index.js''
   \<and> list_all (\<lambda>R. \<not> re_test (regexp R) ''https://unpkg.com/@scope/pkg@1.0.0/index.js'')
        (takeWhile (\<lambda>R. R \<noteq> UnpkgScope) REGISTRIES)
   \<and> lookup ''https://unpkg.com/@scope/pkg@1.0.0/index.js'' REGISTRIES
       = Some (new UnpkgScope ''https://unpkg.com/@scope/pkg@1.0.0/index.js'')
   \<and> lookup ''https://unpkg.com/@scope/pkg@1.0.0/index.js'' REGISTRIES
       \<noteq> Some (new Unpkg ''https://unpkg.com/@scope/pkg@1.0.0/index.js'')"
proof -
  let ?u = "''https://unpkg.com/@scope/pkg@1.0.0/index.js''"
  have p: "(UnpkgScope, Unpkg) \<in> set scoped_pairs"
    by (simp add: scoped_pairs_def)
  have s: "re_test (regexp UnpkgScope) ?u" by code_simp
  have t: "re_test (regexp Unpkg) ?u" by code_simp
  have n: "list_all (\<lambda>R. \<not> re_test (regexp R) ?u) (takeWhile (\<lambda>R. R \<noteq> UnpkgScope) REGISTRIES)"
    by code_simp
  from n have n': "\<forall>R\<in>set (takeWhile (\<lambda>R. R \<noteq> UnpkgScope) REGISTRIES). \<not> re_test (regexp R) ?u"
    by (simp add: list_all_iff)
  from lookup_first_match_scoped_first [of ?u REGISTRIES UnpkgScope Unpkg] p s t n'
  have "lookup ?u REGISTRIES = Some (new UnpkgScope ?u)
      \<and> lookup ?u REGISTRIES \<noteq> Some (new Unpkg ?u)"
    by blast
  with p s t n show ?thesis by blast
qed

text \<open>
  The patterns are not anchored, so a class listed before the scoped one can match too:
  \<^verbatim>\<open>https://unpkg.com/@scope/pkg@1.0.0/jsr:ab\<close> matches the patterns of \<^verbatim>\<open>UnpkgScope\<close> and
  of \<^verbatim>\<open>Unpkg\<close>, and is classified as \<^verbatim>\<open>Jsr\<close>, the first class of the list.
\<close>

theorem scoped_specifier_classified_as_Jsr:
  "re_test (regexp UnpkgScope) ''https://unpkg.com/@scope/pkg@1.0.0/jsr:ab''
   \<and> re_test (regexp Unpkg) ''https://unpkg.com/@scope/pkg@1.0.0/jsr:ab''
   \<and> lookup ''https://unpkg.com/@scope/pkg@1.0.0/jsr:ab'' REGISTRIES
       = Some (new Jsr ''https://unpkg.com/@scope/pkg@1.0.0/jsr:ab'')"
  by code_simp

section \<open>Paginated feeds\<close>

lemma last_entry_append:
  "ys \<noteq> [] \<Longrightarrow> last_entry (xs @ ys) = last_entry ys"
  by (simp add: last_entry_def)

text \<open>
  Both loops stop at once when the last entry known is the one the loop remembers, whatever
  the count of fetches.
\<close>

lemma gitlab_more_stops:
  "gitlab_more net owner repo (last_entry versions) i versions w = (Inr versions, w)"
  by (simp add: gitlab_more.simps)

lemma github_more_stops:
  "github_more net owner repo (last_entry versions) i versions w = (Inr versions, w)"
  by (simp add: github_more.simps)

subsection \<open>GitHub\<close>

lemma github_download:
  assumes "length (github_page net owner repo cursor) = 10"
  shows "githubDownloadReleases net owner repo cursor w
       = (Inr (github_page net owner repo cursor), fetched (github_url owner repo cursor) w)"
  using assms
  by (auto simp: githubDownloadReleases_def github_page_def Let_def split: sum.splits)

text \<open>
  On a feed whose pages are all full and never end in the cursor they were asked with, the
  loop entered with counter \<open>i\<close> fetches \<open>5 - i\<close> pages.
\<close>

lemma github_more_requests:
  "(\<And>c. length (github_page net owner repo c) = 10)
   \<Longrightarrow> (\<And>c. last_entry (github_page net owner repo c) \<noteq> c)
   \<Longrightarrow> i \<le> 5 \<Longrightarrow> lastVersion \<noteq> last_entry versions
   \<Longrightarrow> length (requests (snd (github_more net owner repo lastVersion i versions w)))
       = length (requests w) + (5 - i)"
proof (induction net owner repo lastVersion i versions w rule: github_more.induct)
  case (1 net owner repo lastVersion i versions w)
  note full = "1.prems"(1) and progress = "1.prems"(2)
  show ?case
  proof (cases "i < 5")
    case False
    then show ?thesis by (simp add: github_more.simps)
  next
    case True
    let ?page = "github_page net owner repo (last_entry versions)"
    let ?w' = "fetched (github_url owner repo (last_entry versions)) w"
    have ne: "?page \<noteq> []"
      using full [of "last_entry versions"] by (metis length_0_conv zero_neq_numeral)
    have d: "githubDownloadReleases net owner repo (last_entry versions) w = (Inr ?page, ?w')"
      by (rule github_download) (rule full)
    have l: "last_entry (versions @ ?page) = last_entry ?page"
      using ne by (rule last_entry_append)
    have c: "lastVersion \<noteq> last_entry versions \<and> i < 5"
      using True "1.prems" by simp
    have "length (requests (snd (github_more net owner repo (last_entry versions) (Suc i)
             (versions @ ?page) ?w')))
        = length (requests ?w') + (5 - Suc i)"
    proof (rule "1.IH" [OF c d [symmetric] refl])
      show "Suc i \<le> 5" using True by simp
      show "last_entry versions \<noteq> last_entry (versions @ ?page)"
        unfolding l using progress [of "last_entry versions"] by (rule not_sym)
    qed (rule full, rule progress)
    moreover have "github_more net owner repo lastVersion i versions w
        = github_more net owner repo (last_entry versions) (Suc i) (versions @ ?page) ?w'"
      using c d by (subst github_more.simps) simp
    ultimately show ?thesis
      using True by (simp add: fetched_def)
  qed
qed

text \<open>On such a feed \<^verbatim>\<open>githubReleases\<close> fetches a first page and five more.\<close>

lemma github_five_more:
  assumes "GR_CACHE w (owner_repo owner repo) = None"
    and full: "\<And>c. length (github_page net owner repo c) = 10"
    and progress: "\<And>c. last_entry (github_page net owner repo c) \<noteq> c"
  shows "length (requests (snd (githubReleases net owner repo w))) = length (requests w) + 1 + 5"
proof -
  let ?p0 = "github_page net owner repo None"
  let ?w0 = "fetched (github_url owner repo None) w"
  have d: "githubDownloadReleases net owner repo None w = (Inr ?p0, ?w0)"
    by (rule github_download) (rule full)
  have n: "None \<noteq> last_entry ?p0" using progress [of None] by (rule not_sym)
  have m: "length (requests (snd (github_more net owner repo None 0 ?p0 ?w0)))
      = length (requests ?w0) + (5 - 0)"
    using github_more_requests [of net owner repo 0 None ?p0 ?w0] full progress n by simp
  have r: "requests (snd (githubReleases net owner repo w))
      = requests (snd (github_more net owner repo None 0 ?p0 ?w0))"
    using assms(1) d full [of None]
    by (simp add: githubReleases_def Let_def split: prod.splits sum.splits)
  show ?thesis
    unfolding r m by (simp add: fetched_def)
qed

subsection \<open>GitLab\<close>

lemma gitlab_download:
  assumes "length (gitlab_page net owner repo n) = 20"
  shows "gitlabDownloadReleases net owner repo n w
       = (Inr (gitlab_page net owner repo n), fetched (gitlab_url owner repo n) w)"
  using assms
  by (auto simp: gitlabDownloadReleases_def gitlab_page_def Let_def split: sum.splits)

text \<open>
  On a feed whose pages 1 to 4 are full and end in different entries, the loop entered with
  counter \<open>i\<close> fetches the pages \<open>i + 1\<close> to 4.
\<close>

lemma gitlab_more_requests:
  "(\<And>n. 1 \<le> n \<Longrightarrow> n \<le> 4 \<Longrightarrow> length (gitlab_page net owner repo n) = 20)
   \<Longrightarrow> (\<And>n. 1 \<le> n \<Longrightarrow> n < 4 \<Longrightarrow> last_entry (gitlab_page net owner repo (Suc n))
             \<noteq> last_entry (gitlab_page net owner repo n))
   \<Longrightarrow> 1 \<le> i \<Longrightarrow> i \<le> 4 \<Longrightarrow> lastVersion \<noteq> last_entry versions
   \<Longrightarrow> last_entry versions = last_entry (gitlab_page net owner repo i)
   \<Longrightarrow> requests (snd (gitlab_more net owner repo lastVersion i versions w))
       = requests w @ map (gitlab_url owner repo) [Suc i..<5]"
proof (induction net owner repo lastVersion i versions w rule: gitlab_more.induct)
  case (1 net owner repo lastVersion i versions w)
  note full = "1.prems"(1) and progress = "1.prems"(2)
  show ?case
  proof (cases "i \<le> 3")
    case False
    with "1.prems" have "i = 4" by simp
    then show ?thesis by (simp add: gitlab_more.simps)
  next
    case True
    let ?page = "gitlab_page net owner repo (Suc i)"
    let ?w' = "fetched (gitlab_url owner repo (Suc i)) w"
    have f: "length ?page = 20" using True by (intro full) simp_all
    have ne: "?page \<noteq> []"
      using f by (metis length_0_conv zero_neq_numeral)
    have d: "gitlabDownloadReleases net owner repo (Suc i) w = (Inr ?page, ?w')"
      using f by (rule gitlab_download)
    have l: "last_entry (versions @ ?page) = last_entry ?page"
      using ne by (rule last_entry_append)
    have c: "lastVersion \<noteq> last_entry versions \<and> i \<le> 3"
      using True "1.prems" by simp
    have "requests (snd (gitlab_more net owner repo (last_entry versions) (Suc i)
             (versions @ ?page) ?w'))
        = requests ?w' @ map (gitlab_url owner repo) [Suc (Suc i)..<5]"
    proof (rule "1.IH" [OF c d [symmetric] refl])
      show "1 \<le> Suc i" by simp
      show "Suc i \<le> 4" using True by simp
      have "last_entry ?page \<noteq> last_entry (gitlab_page net owner repo i)"
        using progress [of i] "1.prems"(3) True by simp
      then show "last_entry versions \<noteq> last_entry (versions @ ?page)"
        unfolding l "1.prems"(6) by (rule not_sym)
      show "last_entry (versions @ ?page) = last_entry ?page" by (rule l)
    qed (erule (1) full, erule (1) progress)
    moreover have "gitlab_more net owner repo lastVersion i versions w
        = gitlab_more net owner repo (last_entry versions) (Suc i) (versions @ ?page) ?w'"
      using c d by (subst gitlab_more.simps) simp
    ultimately show ?thesis
      using True by (simp add: fetched_def upt_conv_Cons)
  qed
qed

text \<open>On such a feed \<^verbatim>\<open>gitlabReleases\<close> fetches the pages 1, 2, 3 and 4.\<close>

lemma gitlab_four_pages:
  assumes "GL_CACHE w (owner_repo owner repo) = None"
    and full: "\<And>n. 1 \<le> n \<Longrightarrow> n \<le> 4 \<Longrightarrow> length (gitlab_page net owner repo n) = 20"
    and progress: "\<And>n. 1 \<le> n \<Longrightarrow> n < 4 \<Longrightarrow> last_entry (gitlab_page net owner repo (Suc n))
                        \<noteq> last_entry (gitlab_page net owner repo n)"
  shows "requests (snd (gitlabReleases net owner repo w))
       = requests w @ map (gitlab_url owner repo) [1..<5]"
proof -
  let ?p1 = "gitlab_page net owner repo 1"
  let ?w1 = "fetched (gitlab_url owner repo 1) w"
  have f: "length ?p1 = 20" by (rule full) simp_all
  have d: "gitlabDownloadReleases net owner repo 1 w = (Inr ?p1, ?w1)"
    using f by (rule gitlab_download)
  have ne: "?p1 \<noteq> []"
    using f by (metis length_0_conv zero_neq_numeral)
  then have n: "None \<noteq> last_entry ?p1" by (simp add: last_entry_def)
  have m: "requests (snd (gitlab_more net owner repo None 1 ?p1 ?w1))
      = requests ?w1 @ map (gitlab_url owner repo) [Suc 1..<5]"
    using gitlab_more_requests [of net owner repo 1 None ?p1 ?w1] full progress n by simp
  have u: "[1..<5] = 1 # [Suc 1..<5]" by (simp add: upt_conv_Cons)
  have r: "requests (snd (gitlabReleases net owner repo w))
      = requests (snd (gitlab_more net owner repo None 1 ?p1 ?w1))"
    using assms(1) d f
    by (simp add: gitlabReleases_def Let_def split: prod.splits sum.splits)
  show ?thesis
    unfolding r m u by (simp add: fetched_def)
qed

subsection \<open>The endless feeds\<close>

text \<open>
  The entries of a page made of one entry repeated, read off entry by entry: the pattern
  finds the tag of the first entry and goes on behind it.
\<close>

lemma repeated_entries:
  assumes step: "\<And>front tail. map g (match_all_from r front 0 (e @ tail))
       = t # map g (match_all_from r (rev e @ front) 0 tail)"
    and stop: "\<And>front. match_all_from r front 0 [] = []"
  shows "map g (match_all_from r front 0 (concat (replicate n e))) = replicate n t"
proof (induction n arbitrary: front)
  case 0
  show ?case by (simp only: replicate.simps concat.simps stop list.map)
next
  case (Suc n)
  show ?case by (simp only: replicate.simps concat.simps step Suc.IH list.map)
qed

lemma gitlab_entries:
  "map first_group (match_all_from gitlab_id_re front 0 (gitlab_entry ''v1'' @ tail))
   = ''v1'' # map first_group
       (match_all_from gitlab_id_re (rev (gitlab_entry ''v1'') @ front) 0 tail)"
  "map first_group (match_all_from gitlab_id_re front 0 (gitlab_entry ''v2'' @ tail))
   = ''v2'' # map first_group
       (match_all_from gitlab_id_re (rev (gitlab_entry ''v2'') @ front) 0 tail)"
  "map first_group (match_all_from gitlab_id_re front 0 (gitlab_entry ''v3'' @ tail))
   = ''v3'' # map first_group
       (match_all_from gitlab_id_re (rev (gitlab_entry ''v3'') @ front) 0 tail)"
  "map first_group (match_all_from gitlab_id_re front 0 (gitlab_entry ''v4'' @ tail))
   = ''v4'' # map first_group
       (match_all_from gitlab_id_re (rev (gitlab_entry ''v4'') @ front) 0 tail)"
  by code_simp+

lemma gitlab_no_entry: "match_all_from gitlab_id_re front 0 [] = []"
  by code_simp

lemma endless_gitlab_pages:
  "gitlab_page endless_gitlab (Some ''o'') (Some ''r'') 1 = replicate 20 ''v1''"
  "gitlab_page endless_gitlab (Some ''o'') (Some ''r'') 2 = replicate 20 ''v2''"
  "gitlab_page endless_gitlab (Some ''o'') (Some ''r'') 3 = replicate 20 ''v3''"
  "gitlab_page endless_gitlab (Some ''o'') (Some ''r'') 4 = replicate 20 ''v4''"
  by (simp_all add: gitlab_page_def endless_gitlab_def blank_def gitlab_url_def
      show_nat.simps first_groups_def match_all_def
      repeated_entries [OF gitlab_entries(1) gitlab_no_entry]
      repeated_entries [OF gitlab_entries(2) gitlab_no_entry]
      repeated_entries [OF gitlab_entries(3) gitlab_no_entry]
      repeated_entries [OF gitlab_entries(4) gitlab_no_entry])

lemma github_entries:
  "map first_group (match_all_from github_id_re front 0 (github_entry ''a'' @ tail))
   = ''a'' # map first_group
       (match_all_from github_id_re (rev (github_entry ''a'') @ front) 0 tail)"
  "map first_group (match_all_from github_id_re front 0 (github_entry ''b'' @ tail))
   = ''b'' # map first_group
       (match_all_from github_id_re (rev (github_entry ''b'') @ front) 0 tail)"
  by code_simp+

lemma github_no_entry: "match_all_from github_id_re front 0 [] = []"
  by code_simp

lemma endless_github_page:
  "github_page endless_github owner repo cursor
   = replicate 10 (if last (github_url owner repo cursor) = CHR ''a'' then ''b'' else ''a'')"
  by (simp add: github_page_def endless_github_def blank_def first_groups_def match_all_def
      repeated_entries [OF github_entries(1) github_no_entry]
      repeated_entries [OF github_entries(2) github_no_entry])

lemma last_github_url:
  "truthy cursor \<Longrightarrow> last (github_url owner repo cursor) = last (tpl cursor)"
  by (cases cursor) (auto simp: github_url_def)

lemma endless_github_progress:
  "last_entry (github_page endless_github owner repo cursor) \<noteq> cursor"
proof (cases "truthy cursor")
  case True
  then obtain c where c: "cursor = Some c" "c \<noteq> []" by (cases cursor) auto
  then have "last (github_url owner repo cursor) = last c"
    using last_github_url [OF True] by simp
  then show ?thesis
    using c by (auto simp: endless_github_page last_entry_def)
next
  case False
  then have "cursor = None \<or> cursor = Some []" by (cases cursor) auto
  then show ?thesis
    by (auto simp: endless_github_page last_entry_def github_url_def)
qed

text \<open>
  C3. On a feed that keeps returning full pages the GitHub fetcher makes five fetches after
  the first, and the GitLab fetcher fetches three pages in all. The code keeps the first
  bound and breaks the second: on the endless GitHub feed it makes six requests, and on the
  endless GitLab feed it asks for the pages 1, 2, 3 and 4. Its loop starts the counter at 1,
  goes on while the counter is at most 3 and adds one before each fetch, so the last page
  asked is page 4, under a comment that limits the loop to 3 pages.
\<close>

theorem gitlab_fetches_a_fourth_page:
  "length (requests (snd (githubReleases endless_github (Some ''o'') (Some ''r'') fresh))) = 6
   \<and> requests (snd (gitlabReleases endless_gitlab (Some ''o'') (Some ''r'') fresh))
   = [''https://gitlab.com/o/r/-/tags?format=atom&page=1'',
      ''https://gitlab.com/o/r/-/tags?format=atom&page=2'',
      ''https://gitlab.com/o/r/-/tags?format=atom&page=3'',
      ''https://gitlab.com/o/r/-/tags?format=atom&page=4'']"
proof
  have c: "GR_CACHE fresh (owner_repo (Some ''o'') (Some ''r'')) = None"
    by (simp add: fresh_def)
  have full: "length (github_page endless_github (Some ''o'') (Some ''r'') cursor) = 10"
    for cursor
    by (simp add: endless_github_page)
  have "length (requests (snd (githubReleases endless_github (Some ''o'') (Some ''r'') fresh)))
      = length (requests fresh) + 1 + 5"
    using c full endless_github_progress by (rule github_five_more)
  then show "length (requests (snd (githubReleases endless_github (Some ''o'') (Some ''r'')
      fresh))) = 6"
    by (simp add: fresh_def)
next
  have c: "GL_CACHE fresh (owner_repo (Some ''o'') (Some ''r'')) = None"
    by (simp add: fresh_def)
  have full: "length (gitlab_page endless_gitlab (Some ''o'') (Some ''r'') n) = 20"
    if "1 \<le> n" and "n \<le> 4" for n
  proof -
    from that have "n = 1 \<or> n = 2 \<or> n = 3 \<or> n = 4" by arith
    then show ?thesis
      by (elim disjE) (simp_all only: endless_gitlab_pages length_replicate)
  qed
  have progress: "last_entry (gitlab_page endless_gitlab (Some ''o'') (Some ''r'') (Suc n))
      \<noteq> last_entry (gitlab_page endless_gitlab (Some ''o'') (Some ''r'') n)"
    if "1 \<le> n" and "n < 4" for n
  proof -
    have s: "Suc 1 = 2" "Suc 2 = 3" "Suc 3 = 4" by simp_all
    from that have "n = 1 \<or> n = 2 \<or> n = 3" by arith
    then show ?thesis
      by (elim disjE) (simp_all only: s endless_gitlab_pages, simp_all add: last_entry_def)
  qed
  have "requests (snd (gitlabReleases endless_gitlab (Some ''o'') (Some ''r'') fresh))
      = requests fresh @ map (gitlab_url (Some ''o'') (Some ''r'')) [1..<5]"
    using c full progress by (rule gitlab_four_pages)
  then show "requests (snd (gitlabReleases endless_gitlab (Some ''o'') (Some ''r'') fresh))
   = [''https://gitlab.com/o/r/-/tags?format=atom&page=1'',
      ''https://gitlab.com/o/r/-/tags?format=atom&page=2'',
      ''https://gitlab.com/o/r/-/tags?format=atom&page=3'',
      ''https://gitlab.com/o/r/-/tags?format=atom&page=4'']"
    by (simp add: fresh_def gitlab_url_def show_nat.simps upt_conv_Cons)
qed

section \<open>The version caches\<close>


lemma strings_pair [simp]: "strings (Inr xs, w) = (Inr (map Some xs), w)"
  by (simp add: strings_def)










section \<open>The order of the versions\<close>




section \<open>An upload log without names\<close>

text \<open>
  C10. When the answer of nest.land has no field \<^verbatim>\<open>packageUploadNames\<close>, \<^verbatim>\<open>all()\<close> of a
  \<^verbatim>\<open>NestLand\<close> specifier resolves to the empty list, after the one request, and the cache
  is what it was.
\<close>

theorem nestland_missing_field_not_cached:
  assumes "kind r = NestLand"
    and "at_index (split_on CHR ''/'' (url r)) 3 = Some p3"
    and "NL_CACHE w (hd (split_on CHR ''@'' p3)) = None"
    and "uploads_of net (''https://x.nest.land/api/package/'' @ hd (split_on CHR ''@'' p3)) = Inr None"
  shows "all_versions net sv r w
           = (Inr [], fetched (''https://x.nest.land/api/package/'' @ hd (split_on CHR ''@'' p3)) w)
         \<and> NL_CACHE (snd (all_versions net sv r w)) = NL_CACHE w"
  using assms
  by (simp add: all_versions_def NestLand_all_def nestlandReleases_def fetched_def)

theorem nestland_missing_field_not_cached_witness:
  "kind (new NestLand ''https://x.nest.land/pkg@1.0.0/mod.ts'') = NestLand
   \<and> at_index (split_on CHR ''/'' (url (new NestLand ''https://x.nest.land/pkg@1.0.0/mod.ts''))) 3
       = Some ''pkg@1.0.0''
   \<and> NL_CACHE fresh (hd (split_on CHR ''@'' ''pkg@1.0.0'')) = None
   \<and> uploads_of blank (''https://x.nest.land/api/package/'' @ hd (split_on CHR ''@'' ''pkg@1.0.0''))
       = Inr None
   \<and> fst (all_versions blank semver_2 (new NestLand ''https://x.nest.land/pkg@1.0.0/mod.ts'') fresh)
       = Inr []
   \<and> NL_CACHE (snd (all_versions blank semver_2
        (new NestLand ''https://x.nest.land/pkg@1.0.0/mod.ts'') fresh)) = NL_CACHE fresh"
proof -
  let ?r = "new NestLand ''https://x.nest.land/pkg@1.0.0/mod.ts''"
  have k: "kind ?r = NestLand" by (simp add: new_def)
  have p: "at_index (split_on CHR ''/'' (url ?r)) 3 = Some ''pkg@1.0.0''" by code_simp
  have c: "NL_CACHE fresh (hd (split_on CHR ''@'' ''pkg@1.0.0'')) = None"
    by (simp add: fresh_def)
  have n: "uploads_of blank (''https://x.nest.land/api/package/'' @ hd (split_on CHR ''@'' ''pkg@1.0.0''))
       = Inr None"
    by (simp add: blank_def)
  from nestland_missing_field_not_cached [OF k p c n, of semver_2] k p c n
  show ?thesis by (simp add: fetched_def)
qed

section \<open>Upgrading a dependency map\<close>

lemma jsr_example:
  "lookup ''jsr:@scope/pkg@^1.0.0'' REGISTRIES = Some (new Jsr ''jsr:@scope/pkg@^1.0.0'')"
  "version (new Jsr ''jsr:@scope/pkg@^1.0.0'') = Inr (Some ''1.0.0'')"
  "at (new Jsr ''jsr:@scope/pkg@^1.0.0'') ''1.2.0'' = Inr (new Jsr ''jsr:@scope/pkg@1.2.0'')"
  by code_simp+

text \<open>
  C9, as amended. On the map \<^verbatim>\<open>{"@scope/pkg": "jsr:@scope/pkg@^1.0.0"}\<close>, with a pattern
  that matches the key and a fetch that returns \<^verbatim>\<open>["1.2.0", "1.0.0"]\<close>, the engine returns
  \<^verbatim>\<open>true\<close> and the entry becomes \<^verbatim>\<open>jsr:@scope/pkg@1.2.0\<close>: \<^verbatim>\<open>Jsr.at\<close> writes the version
  it is given, and \<^verbatim>\<open>Jsr.version\<close> has dropped the caret of the old one.
\<close>

theorem upgrade_example_drops_caret:
  assumes "re_test deps ''@scope/pkg''"
    and "fetch_all allowPre (new Jsr ''jsr:@scope/pkg@^1.0.0'') = Inr [Some ''1.2.0'', Some ''1.0.0'']"
    and "settle [(''@scope/pkg'', ''jsr:@scope/pkg@^1.0.0'')] = [(''@scope/pkg'', ''jsr:@scope/pkg@^1.0.0'')]"
    and "force \<or> parse sv ''1.0.0'' \<noteq> None"
  shows "fst (upgradeDeps sv fetch_all settle force allowPre
                (Some [(''@scope/pkg'', ''jsr:@scope/pkg@^1.0.0'')]) logs deps) = Inr True
       \<and> importsMap (snd (upgradeDeps sv fetch_all settle force allowPre
                (Some [(''@scope/pkg'', ''jsr:@scope/pkg@^1.0.0'')]) logs deps))
          = [(''@scope/pkg'', ''jsr:@scope/pkg@1.2.0'')]"
proof -
  let ?m = "[(''@scope/pkg'', ''jsr:@scope/pkg@^1.0.0'')]"
  have sel: "selected deps (starting logs (Some ?m)) = ?m"
    using assms(1) by (simp add: selected_def starting_def logger_def)
  have info: "pkgInfo fetch_all ''jsr:@scope/pkg@^1.0.0'' allowPre
      = Inr (Some \<lparr>pkg_url = new Jsr ''jsr:@scope/pkg@^1.0.0'', latest = Some ''1.2.0'',
                   current = Some ''1.0.0''\<rparr>)"
    using assms(2) by (simp add: pkgInfo_def jsr_example)
  have can: "force \<or> canParse sv (Some ''1.0.0'')"
    using assms(4) by (auto simp: canParse_def)
  show ?thesis
    unfolding upgradeDeps_def sel assms(3)
    using can
    by (auto simp: info upgrade_entry_def jsr_example requiredMinVersion_def starting_def
        logger_def Let_def)
qed

theorem upgrade_example_drops_caret_witness:
  "re_test scope_pattern ''@scope/pkg''
   \<and> two_versions False (new Jsr ''jsr:@scope/pkg@^1.0.0'') = Inr [Some ''1.2.0'', Some ''1.0.0'']
   \<and> in_order [(''@scope/pkg'', ''jsr:@scope/pkg@^1.0.0'')] = [(''@scope/pkg'', ''jsr:@scope/pkg@^1.0.0'')]
   \<and> parse semver_2 ''1.0.0'' \<noteq> None
   \<and> fst (upgradeDeps semver_2 two_versions in_order False False
                (Some [(''@scope/pkg'', ''jsr:@scope/pkg@^1.0.0'')]) True scope_pattern) = Inr True
   \<and> importsMap (snd (upgradeDeps semver_2 two_versions in_order False False
                (Some [(''@scope/pkg'', ''jsr:@scope/pkg@^1.0.0'')]) True scope_pattern))
          = [(''@scope/pkg'', ''jsr:@scope/pkg@1.2.0'')]"
proof -
  have a: "re_test scope_pattern ''@scope/pkg''" by code_simp
  have b: "two_versions False (new Jsr ''jsr:@scope/pkg@^1.0.0'') = Inr [Some ''1.2.0'', Some ''1.0.0'']"
    by (simp add: two_versions_def)
  have c: "in_order [(''@scope/pkg'', ''jsr:@scope/pkg@^1.0.0'')] = [(''@scope/pkg'', ''jsr:@scope/pkg@^1.0.0'')]"
    by (simp add: in_order_def)
  have d: "parse semver_2 ''1.0.0'' \<noteq> None" by code_simp
  from d have d': "False \<or> parse semver_2 ''1.0.0'' \<noteq> None" by simp
  from upgrade_example_drops_caret [where deps = scope_pattern and fetch_all = two_versions
        and allowPre = False and settle = in_order and force = False and sv = semver_2
        and logs = True] a b c d'
  have "fst (upgradeDeps semver_2 two_versions in_order False False
                (Some [(''@scope/pkg'', ''jsr:@scope/pkg@^1.0.0'')]) True scope_pattern) = Inr True
       \<and> importsMap (snd (upgradeDeps semver_2 two_versions in_order False False
                (Some [(''@scope/pkg'', ''jsr:@scope/pkg@^1.0.0'')]) True scope_pattern))
          = [(''@scope/pkg'', ''jsr:@scope/pkg@1.2.0'')]"
    by blast
  with a b c d show ?thesis by blast
qed

text \<open>The claim as stated fails: the rewritten specifier is not \<^verbatim>\<open>jsr:@scope/pkg@^1.2.0\<close>.\<close>

theorem upgrade_example_not_caret:
  "importsMap (snd (upgradeDeps semver_2 two_versions in_order False False
       (Some [(''@scope/pkg'', ''jsr:@scope/pkg@^1.0.0'')]) True scope_pattern))
   \<noteq> [(''@scope/pkg'', ''jsr:@scope/pkg@^1.2.0'')]"
  by code_simp

lemma concurrent_pass_append:
  "concurrent_pass sv fetch_all force allowPre logs (xs @ ys) st =
     (case concurrent_pass sv fetch_all force allowPre logs xs st of
        (Some e, st') \<Rightarrow> (Some e, st')
      | (None, st') \<Rightarrow> concurrent_pass sv fetch_all force allowPre logs ys st')"
  by (induction xs arbitrary: st) (auto split: sum.splits prod.splits option.splits)

text \<open>
  C6, as amended. When the fetch of a selected entry fails, the failure is the result of the
  engine, and the dependency map at that moment is the one left by the entries that settled
  before the failing one: their rewrites stay applied, nothing rolls them back.
\<close>

theorem failed_fetch_keeps_earlier_rewrites:
  assumes "settle (selected deps (starting logs importMap)) = earlier @ (pkg, specifier) # later"
    and "concurrent_pass sv fetch_all force allowPre logs earlier (starting logs importMap) = (None, st)"
    and "pkgInfo fetch_all specifier allowPre = Inl e"
  shows "upgradeDeps sv fetch_all settle force allowPre importMap logs deps = (Inl e, st)"
  using assms by (simp add: upgradeDeps_def concurrent_pass_append)

theorem failed_fetch_keeps_earlier_rewrites_witness:
  "in_order (selected PACKAGES_TO_CHECK (starting True (Some two_entries)))
     = [(''@deco/a'', ''jsr:@deco/a@1.0.0'')] @ (''@deco/b'', ''npm:b@1.0.0'') # []
   \<and> fst (concurrent_pass semver_2 npm_down False False True [(''@deco/a'', ''jsr:@deco/a@1.0.0'')]
        (starting True (Some two_entries))) = None
   \<and> pkgInfo npm_down ''npm:b@1.0.0'' False = Inl (FetchFailed ''registry.npmjs.org'')
   \<and> fst (upgradeDeps semver_2 npm_down in_order False False (Some two_entries) True PACKAGES_TO_CHECK)
       = Inl (FetchFailed ''registry.npmjs.org'')
   \<and> importsMap (snd (upgradeDeps semver_2 npm_down in_order False False (Some two_entries) True
        PACKAGES_TO_CHECK))
       = importsMap (snd (concurrent_pass semver_2 npm_down False False True
            [(''@deco/a'', ''jsr:@deco/a@1.0.0'')] (starting True (Some two_entries))))
   \<and> importsMap (snd (concurrent_pass semver_2 npm_down False False True
            [(''@deco/a'', ''jsr:@deco/a@1.0.0'')] (starting True (Some two_entries))))
       = [(''@deco/a'', ''jsr:@deco/a@1.2.0''), (''@deco/b'', ''npm:b@1.0.0'')]"
proof -
  let ?st0 = "starting True (Some two_entries)"
  let ?p = "concurrent_pass semver_2 npm_down False False True [(''@deco/a'', ''jsr:@deco/a@1.0.0'')] ?st0"
  have a: "in_order (selected PACKAGES_TO_CHECK ?st0)
     = [(''@deco/a'', ''jsr:@deco/a@1.0.0'')] @ (''@deco/b'', ''npm:b@1.0.0'') # []"
    by code_simp
  have b: "fst ?p = None" by code_simp
  then have b': "?p = (None, snd ?p)" by (simp add: prod_eq_iff)
  have c: "pkgInfo npm_down ''npm:b@1.0.0'' False = Inl (FetchFailed ''registry.npmjs.org'')"
    by code_simp
  have d: "importsMap (snd ?p) = [(''@deco/a'', ''jsr:@deco/a@1.2.0''), (''@deco/b'', ''npm:b@1.0.0'')]"
    by code_simp
  from failed_fetch_keeps_earlier_rewrites [where settle = in_order and deps = PACKAGES_TO_CHECK
        and logs = True and importMap = "Some two_entries" and sv = semver_2
        and fetch_all = npm_down and force = False and allowPre = False, OF a b' c]
  have "upgradeDeps semver_2 npm_down in_order False False (Some two_entries) True PACKAGES_TO_CHECK
     = (Inl (FetchFailed ''registry.npmjs.org''), snd ?p)" .
  with a b c d show ?thesis by simp
qed

text \<open>
  The claim as stated fails: with the entry \<^verbatim>\<open>@deco/a\<close> settled before the fetch for
  \<^verbatim>\<open>@deco/b\<close> fails, the engine fails and the map holds the rewrite of \<^verbatim>\<open>@deco/a\<close>.
\<close>

theorem failed_fetch_after_rewrite:
  "fst (upgradeDeps semver_2 npm_down in_order False False (Some two_entries) True PACKAGES_TO_CHECK)
     = Inl (FetchFailed ''registry.npmjs.org'')
   \<and> importsMap (snd (upgradeDeps semver_2 npm_down in_order False False (Some two_entries) True
        PACKAGES_TO_CHECK))
     = [(''@deco/a'', ''jsr:@deco/a@1.2.0''), (''@deco/b'', ''npm:b@1.0.0'')]"
  by code_simp

end
